theory Spec2Isabelle
  imports Complex_Main
begin

section \<open>JavaScript strings\<close>

text \<open>
  Strings are lists of characters. The character classes are those of the JavaScript
  regular expressions and of \<^verbatim>\<open>String.prototype.trim\<close>, on the 8-bit range:
  \<^verbatim>\<open>\s\<close> is tab, line feed, vertical tab, form feed, carriage return, space and
  no-break space; \<^verbatim>\<open>\w\<close> is \<^verbatim>\<open>[A-Za-z0-9_]\<close>.
\<close>

definition code :: "char \<Rightarrow> nat" where
  "code c = of_char c"

definition is_space :: "char \<Rightarrow> bool" where
  "is_space c = (code c \<in> {9, 10, 11, 12, 13, 32, 160})"

definition is_digit :: "char \<Rightarrow> bool" where
  "is_digit c = (48 \<le> code c \<and> code c \<le> 57)"

definition is_word :: "char \<Rightarrow> bool" where
  "is_word c = (is_digit c \<or> (65 \<le> code c \<and> code c \<le> 90)
                 \<or> (97 \<le> code c \<and> code c \<le> 122) \<or> c = CHR ''_'')"

definition trim :: "string \<Rightarrow> string" where
  "trim s = rev (dropWhile is_space (rev (dropWhile is_space s)))"

definition startsWith :: "string \<Rightarrow> string \<Rightarrow> bool" where
  "startsWith s p = (take (length p) s = p)"

text \<open>\<^verbatim>\<open>s.includes(p)\<close>: \<open>p\<close> occurs in \<open>s\<close> at some position.\<close>

fun str_includes :: "string \<Rightarrow> string \<Rightarrow> bool" where
  "str_includes [] p = (p = [])"
| "str_includes (c # cs) p = (startsWith (c # cs) p \<or> str_includes cs p)"

text \<open>\<^verbatim>\<open>s.replace(p, '')\<close> with a string pattern: the first occurrence is removed.\<close>

fun remove_first :: "string \<Rightarrow> string \<Rightarrow> string" where
  "remove_first [] p = []"
| "remove_first (c # cs) p =
     (if startsWith (c # cs) p then drop (length p) (c # cs) else c # remove_first cs p)"

section \<open>The vector backends\<close>

subsection \<open>The database and the native extensions\<close>

text \<open>
  A \<^verbatim>\<open>Float32Array\<close> is a list of numbers; only its length is ever inspected by the
  backends. A JavaScript \<^verbatim>\<open>Error\<close> is its message.
\<close>

type_synonym float32array = "real list"

datatype error = Error (message: string)

record item =
  item_id :: int
  item_key :: string
  item_payload :: "string option"

text \<open>
  A virtual vector table: the dimension it was created with and its rows (row id and
  embedding). A table that was never created is \<open>None\<close> in the database, and every
  statement on it throws.
\<close>

record vtable =
  vt_dim :: int
  vt_rows :: "(int \<times> float32array) list"

record database =
  memory_items :: "item list option"
  memory_vectors_vec :: "vtable option"
  memory_vectors_vss :: "vtable option"

text \<open>
  What the JavaScript engine, the SQLite build and the loaded extensions decide, and the
  source does not: how a number is written into a template string (\<^verbatim>\<open>${id}\<close>) and how
  \<^verbatim>\<open>parseInt\<close> reads a string (\<open>None\<close> is NaN); whether \<^verbatim>\<open>RETURNING\<close> is
  supported; whether the module accepts a table of some dimension or a row (\<open>Some msg\<close>
  is the message of the exception thrown); and the rows a nearest-neighbour search yields.
  They are parameters of the model. A JavaScript number is a real number here: NaN and the
  infinities are not among the ids.
\<close>

record native =
  number_string :: "real \<Rightarrow> string"
  parse_int :: "string \<Rightarrow> real option"
  returning_supported :: bool
  vec_create :: "int \<Rightarrow> string option"
  vec_insert :: "vtable \<Rightarrow> int \<Rightarrow> float32array \<Rightarrow> string option"
  vec_match :: "vtable \<Rightarrow> float32array \<Rightarrow> int \<Rightarrow> string + (int \<times> real) list"
  vss_create :: "int \<Rightarrow> string option"
  vss_insert :: "vtable \<Rightarrow> int \<Rightarrow> float32array \<Rightarrow> string option"
  vss_search :: "vtable \<Rightarrow> float32array \<Rightarrow> string + (int \<times> real) list"

text \<open>\<^verbatim>\<open>INSERT OR REPLACE\<close>: a row with the same id is removed, the new row is added.\<close>

definition insert_or_replace :: "int \<Rightarrow> float32array \<Rightarrow> vtable \<Rightarrow> vtable" where
  "insert_or_replace i v t = t\<lparr>vt_rows := filter (\<lambda>r. fst r \<noteq> i) (vt_rows t) @ [(i, v)]\<rparr>"

text \<open>
  The row id SQLite gives to a row inserted without one into a table with an
  \<^verbatim>\<open>INTEGER PRIMARY KEY\<close>: 1 in an empty table, otherwise one more than the largest id.
\<close>

fun max_rowid :: "int list \<Rightarrow> int" where
  "max_rowid [] = 0"
| "max_rowid [x] = x"
| "max_rowid (x # y # ys) = max x (max_rowid (y # ys))"

definition next_rowid :: "item list \<Rightarrow> int" where
  "next_rowid its = (if its = [] then 1 else max_rowid (map item_id its) + 1)"

definition find_key :: "string \<Rightarrow> item list \<Rightarrow> item option" where
  "find_key k its = find (\<lambda>it. item_key it = k) its"

subsection \<open>Dimension validation\<close>

definition assertDim :: "native \<Rightarrow> float32array \<Rightarrow> int \<Rightarrow> error option" where
  "assertDim ext v expected =
     (if int (length v) \<noteq> expected
      then Some (Error (''Vector dimension '' @ number_string ext (real (length v)) @ '' != ''
                          @ number_string ext (of_int expected)))
      else None)"

subsection \<open>VecBackend\<close>

record VecBackend =
  vec_loaded :: bool
  vec_dim :: "int option"

type_synonym vec_state = "VecBackend \<times> database"

text \<open>
  \<^verbatim>\<open>ensureTable\<close>, on a database that can be written: there the pragmas and the
  creation of the key table do not throw; the creation of the virtual table is
  \<^verbatim>\<open>IF NOT EXISTS\<close>, so the module is asked only when the table is absent.
\<close>

definition VecBackend_ensureTable :: "native \<Rightarrow> int \<Rightarrow> vec_state \<Rightarrow> vec_state" where
  "VecBackend_ensureTable ext d st =
     (case st of (b, db) \<Rightarrow>
        if \<not> vec_loaded b then (b, db)
        else if vec_dim b = Some d then (b, db)
        else
          let db1 = (case memory_items db of None \<Rightarrow> db\<lparr>memory_items := Some []\<rparr> | Some _ \<Rightarrow> db)
          in (case memory_vectors_vec db1 of
                Some _ \<Rightarrow> (b\<lparr>vec_dim := Some d\<rparr>, db1)
              | None \<Rightarrow>
                  (case vec_create ext d of
                     Some msg \<Rightarrow> (b\<lparr>vec_loaded := False\<rparr>, db1)
                   | None \<Rightarrow> (b\<lparr>vec_dim := Some d\<rparr>,
                               db1\<lparr>memory_vectors_vec := Some \<lparr>vt_dim = d, vt_rows = []\<rparr>\<rparr>))))"

text \<open>
  \<^verbatim>\<open>getOrCreateIdForKey\<close>. The fast path is one statement: insert, or on a conflict on
  the key update the payload, and return the id. Where \<^verbatim>\<open>RETURNING\<close> is not supported
  the statement throws and the fallback runs: \<^verbatim>\<open>INSERT OR IGNORE\<close>, then a select. A
  missing key table makes both paths throw, the second one out of the function.
\<close>

definition getOrCreateIdForKey ::
  "native \<Rightarrow> string \<Rightarrow> string option \<Rightarrow> database \<Rightarrow> (error + int) \<times> database" where
  "getOrCreateIdForKey ext key payload db =
     (case memory_items db of
        None \<Rightarrow> (Inl (Error ''no such table: memory_items''), db)
      | Some its \<Rightarrow>
          if returning_supported ext then
            (case find_key key its of
               Some it \<Rightarrow>
                 (Inr (item_id it),
                  db\<lparr>memory_items := Some (map (\<lambda>x. if item_key x = key
                        then x\<lparr>item_payload := (case payload of None \<Rightarrow> item_payload x | Some p \<Rightarrow> Some p)\<rparr>
                        else x) its)\<rparr>)
             | None \<Rightarrow>
                 (Inr (next_rowid its),
                  db\<lparr>memory_items := Some (its @ [\<lparr>item_id = next_rowid its, item_key = key, item_payload = payload\<rparr>])\<rparr>))
          else
            (let its1 = (case find_key key its of
                           Some _ \<Rightarrow> its
                         | None \<Rightarrow> its @ [\<lparr>item_id = next_rowid its, item_key = key, item_payload = payload\<rparr>])
             in (case find_key key its1 of
                   Some it \<Rightarrow> (Inr (item_id it), db\<lparr>memory_items := Some its1\<rparr>)
                 | None \<Rightarrow> (Inl (Error ''Cannot read properties of undefined''), db\<lparr>memory_items := Some its1\<rparr>))))"

text \<open>
  The body of the \<^verbatim>\<open>try\<close> of \<^verbatim>\<open>upsert\<close>: the exception thrown, or nothing, and the
  database as the statements run so far have left it. The id is a number, not necessarily
  an integer: the check is on \<^verbatim>\<open>Math.floor(Number(id))\<close>, which is an integer for every
  number, so only a negative floor is refused; the key is built from the id itself.
\<close>

definition upsert_body :: "native \<Rightarrow> int \<Rightarrow> real \<Rightarrow> float32array \<Rightarrow> database \<Rightarrow> error option \<times> database" where
  "upsert_body ext d i v db =
     (case assertDim ext v d of
        Some e \<Rightarrow> (Some e, db)
      | None \<Rightarrow>
          let intId = \<lfloor>i\<rfloor>
          in if intId < 0
          then (Some (Error (''Invalid ID for sqlite-vec: '' @ number_string ext i @ '' (must be positive integer)'')), db)
          else
            (case getOrCreateIdForKey ext (''memory_'' @ number_string ext i) None db of
               (Inl e, db1) \<Rightarrow> (Some e, db1)
             | (Inr mappedId, db1) \<Rightarrow>
                 (case memory_vectors_vec db1 of
                    None \<Rightarrow> (Some (Error ''no such table: memory_vectors_vec''), db1)
                  | Some t \<Rightarrow>
                      (case vec_insert ext t mappedId v of
                         Some msg \<Rightarrow> (Some (Error msg), db1)
                       | None \<Rightarrow> (None, db1\<lparr>memory_vectors_vec := Some (insert_or_replace mappedId v t)\<rparr>)))))"

text \<open>
  \<^verbatim>\<open>upsert\<close>: the first component is the exception that leaves the method, if any. The
  \<^verbatim>\<open>catch\<close> throws again exactly the errors whose message contains \<^verbatim>\<open>dimension\<close>.
\<close>

definition VecBackend_upsert :: "native \<Rightarrow> real \<Rightarrow> float32array \<Rightarrow> vec_state \<Rightarrow> error option \<times> vec_state" where
  "VecBackend_upsert ext i v st =
     (case st of (b, db) \<Rightarrow>
        (case vec_dim b of
           None \<Rightarrow> (None, (b, db))
         | Some d \<Rightarrow>
             if \<not> vec_loaded b then (None, (b, db))
             else (case upsert_body ext d i v db of
                     (None, db1) \<Rightarrow> (None, (b, db1))
                   | (Some e, db1) \<Rightarrow>
                       if str_includes (message e) ''dimension'' then (Some e, (b, db1))
                       else (None, (b, db1)))))"

text \<open>
  \<^verbatim>\<open>queryNearest\<close>: the rows of the search are joined with the key table on the id,
  ordered by distance and limited (a negative limit is no limit in SQLite); then each
  key is turned back into an id. An id of \<open>None\<close> is NaN.
\<close>

definition limit :: "int \<Rightarrow> 'a list \<Rightarrow> 'a list" where
  "limit k xs = (if k < 0 then xs else take (nat k) xs)"

definition join_items :: "item list \<Rightarrow> (int \<times> real) list \<Rightarrow> (string \<times> real) list" where
  "join_items its hits =
     concat (map (\<lambda>h. map (\<lambda>it. (item_key it, snd h)) (filter (\<lambda>it. item_id it = fst h) its)) hits)"

definition key_to_id :: "native \<Rightarrow> string \<Rightarrow> real option" where
  "key_to_id ext key = parse_int ext (remove_first key ''memory_'')"

definition VecBackend_queryNearest ::
  "native \<Rightarrow> float32array \<Rightarrow> int \<Rightarrow> vec_state \<Rightarrow> (real option \<times> real) list" where
  "VecBackend_queryNearest ext query topk st =
     (case st of (b, db) \<Rightarrow>
        (case vec_dim b of
           None \<Rightarrow> []
         | Some d \<Rightarrow>
             if \<not> vec_loaded b then []
             else (case assertDim ext query d of
                     Some e \<Rightarrow> []
                   | None \<Rightarrow>
                       (case (memory_vectors_vec db, memory_items db) of
                          (Some t, Some its) \<Rightarrow>
                            (case vec_match ext t query topk of
                               Inl msg \<Rightarrow> []
                             | Inr hits \<Rightarrow>
                                 map (\<lambda>r. (key_to_id ext (fst r), snd r))
                                   (limit topk (sort_key snd (join_items its hits))))
                        | _ \<Rightarrow> []))))"

definition VecBackend_count :: "vec_state \<Rightarrow> int" where
  "VecBackend_count st =
     (case st of (b, db) \<Rightarrow>
        if \<not> vec_loaded b then 0
        else (case memory_vectors_vec db of None \<Rightarrow> 0 | Some t \<Rightarrow> int (length (vt_rows t))))"

definition VecBackend_isAvailable :: "vec_state \<Rightarrow> bool" where
  "VecBackend_isAvailable st = vec_loaded (fst st)"

text \<open>
  \<^verbatim>\<open>VecBackend.tryLoad\<close>. The four well-known install locations are values of
  \<open>location\<close>; the file system and \<^verbatim>\<open>loadExtension\<close> are the environment
  (\<open>Some msg\<close>: the load throws).
\<close>

datatype platform = Win32 | Darwin | Linux

datatype location = VecManualPath | VecNpmPath | VssVectorPath | VssPath

record environment =
  os_platform :: platform
  existsSync :: "location \<Rightarrow> bool"
  loadExtension :: "location \<Rightarrow> string option"

text \<open>
  The self-test, which the source writes out once for each of the two locations: the
  table at 384 dimensions, one vector of 384 times 0.1 under the id 999999, and the count,
  whose value is only logged. An exception leaving one of the calls sets \<open>loaded\<close> to
  false. The result is the backend if it is still loaded, otherwise null.
\<close>

definition VecBackend_selfTest :: "native \<Rightarrow> vec_state \<Rightarrow> VecBackend option \<times> database" where
  "VecBackend_selfTest ext st =
     (let st1 = VecBackend_ensureTable ext 384 st
      in (case VecBackend_upsert ext 999999 (replicate 384 (1 / 10)) st1 of
            (Some e, (b2, db2)) \<Rightarrow> (None, db2)
          | (None, (b2, db2)) \<Rightarrow>
              (let count = VecBackend_count (b2, db2)
               in (if vec_loaded b2 then Some b2 else None, db2))))"

definition VecBackend_tryLoad :: "environment \<Rightarrow> native \<Rightarrow> database \<Rightarrow> VecBackend option \<times> database" where
  "VecBackend_tryLoad env ext db =
     (let backend = \<lparr>vec_loaded = False, vec_dim = None\<rparr>;
          npm = (if existsSync env VecNpmPath
                 then (case loadExtension env VecNpmPath of
                         Some msg \<Rightarrow> (None, db)
                       | None \<Rightarrow> VecBackend_selfTest ext (backend\<lparr>vec_loaded := True\<rparr>, db))
                 else (None, db))
      in if existsSync env VecManualPath
         then (case loadExtension env VecManualPath of
                 Some msg \<Rightarrow> npm
               | None \<Rightarrow> VecBackend_selfTest ext (backend\<lparr>vec_loaded := True\<rparr>, db))
         else npm)"

subsection \<open>VssBackend\<close>

record VssBackend =
  vss_loaded :: bool
  vss_dim :: "int option"

type_synonym vss_state = "VssBackend \<times> database"

definition VssBackend_ensureTable :: "native \<Rightarrow> int \<Rightarrow> vss_state \<Rightarrow> vss_state" where
  "VssBackend_ensureTable ext d st =
     (case st of (b, db) \<Rightarrow>
        if \<not> vss_loaded b then (b, db)
        else if vss_dim b = Some d then (b, db)
        else (case memory_vectors_vss db of
                Some _ \<Rightarrow> (b\<lparr>vss_dim := Some d\<rparr>, db)
              | None \<Rightarrow>
                  (case vss_create ext d of
                     Some msg \<Rightarrow> (b\<lparr>vss_loaded := False\<rparr>, db)
                   | None \<Rightarrow> (b\<lparr>vss_dim := Some d\<rparr>,
                               db\<lparr>memory_vectors_vss := Some \<lparr>vt_dim = d, vt_rows = []\<rparr>\<rparr>))))"

text \<open>
  \<^verbatim>\<open>upsert\<close>: the row id is the caller's id. Whatever the statement throws is caught,
  and \<open>loaded\<close> becomes false; nothing leaves the method.
\<close>

definition VssBackend_upsert :: "native \<Rightarrow> int \<Rightarrow> float32array \<Rightarrow> vss_state \<Rightarrow> error option \<times> vss_state" where
  "VssBackend_upsert ext i v st =
     (case st of (b, db) \<Rightarrow>
        (case vss_dim b of
           None \<Rightarrow> (None, (b, db))
         | Some d \<Rightarrow>
             if \<not> vss_loaded b then (None, (b, db))
             else (case memory_vectors_vss db of
                     None \<Rightarrow> (None, (b\<lparr>vss_loaded := False\<rparr>, db))
                   | Some t \<Rightarrow>
                       (case vss_insert ext t i v of
                          Some msg \<Rightarrow> (None, (b\<lparr>vss_loaded := False\<rparr>, db))
                        | None \<Rightarrow> (None, (b, db\<lparr>memory_vectors_vss := Some (insert_or_replace i v t)\<rparr>))))))"

definition VssBackend_queryNearest ::
  "native \<Rightarrow> float32array \<Rightarrow> int \<Rightarrow> vss_state \<Rightarrow> (int \<times> real) list" where
  "VssBackend_queryNearest ext query topk st =
     (case st of (b, db) \<Rightarrow>
        (case vss_dim b of
           None \<Rightarrow> []
         | Some d \<Rightarrow>
             if \<not> vss_loaded b then []
             else (case memory_vectors_vss db of
                     None \<Rightarrow> []
                   | Some t \<Rightarrow>
                       (case vss_search ext t query of
                          Inl msg \<Rightarrow> []
                        | Inr hits \<Rightarrow> limit topk (sort_key snd hits)))))"

definition VssBackend_count :: "vss_state \<Rightarrow> int" where
  "VssBackend_count st =
     (case st of (b, db) \<Rightarrow>
        if \<not> vss_loaded b then 0
        else (case memory_vectors_vss db of None \<Rightarrow> 0 | Some t \<Rightarrow> int (length (vt_rows t))))"

definition VssBackend_isAvailable :: "vss_state \<Rightarrow> bool" where
  "VssBackend_isAvailable st = vss_loaded (fst st)"

text \<open>
  \<^verbatim>\<open>VssBackend.tryLoad\<close>: outside Windows \<^verbatim>\<open>vector0\<close> has to exist and load first;
  then \<^verbatim>\<open>vss0\<close> is loaded and the backend is returned as it is. The database is not
  touched.
\<close>

definition VssBackend_tryLoad :: "environment \<Rightarrow> VssBackend option" where
  "VssBackend_tryLoad env =
     (let vss = (if existsSync env VssPath
                 then (case loadExtension env VssPath of
                         Some msg \<Rightarrow> None
                       | None \<Rightarrow> Some \<lparr>vss_loaded = True, vss_dim = None\<rparr>)
                 else None)
      in if os_platform env \<noteq> Win32
         then (if existsSync env VssVectorPath
               then (case loadExtension env VssVectorPath of Some msg \<Rightarrow> None | None \<Rightarrow> vss)
               else None)
         else vss)"

subsection \<open>UnifiedVectorBackend\<close>

text \<open>
  The unified backend hands each call to the active backend, and does nothing when there
  is none. Its callers pass integer ids, which \<open>VssBackend\<close> stores as row ids.
\<close>

datatype BackendType = vec | vss | local_js

datatype VectorBackend = Vec VecBackend | Vss VssBackend

record UnifiedVectorBackend =
  activeBackend :: "VectorBackend option"

type_synonym unified_state = "UnifiedVectorBackend \<times> database"

definition UnifiedVectorBackend_tryLoad :: "environment \<Rightarrow> native \<Rightarrow> database \<Rightarrow> unified_state" where
  "UnifiedVectorBackend_tryLoad env ext db =
     (let tryVec = (case VecBackend_tryLoad env ext db of
                      (Some b, db1) \<Rightarrow> (\<lparr>activeBackend = Some (Vec b)\<rparr>, db1)
                    | (None, db1) \<Rightarrow> (\<lparr>activeBackend = None\<rparr>, db1))
      in if os_platform env = Win32 then tryVec
         else (case VssBackend_tryLoad env of
                 Some b \<Rightarrow> (\<lparr>activeBackend = Some (Vss b)\<rparr>, db)
               | None \<Rightarrow> tryVec))"

definition isAvailable :: "unified_state \<Rightarrow> bool" where
  "isAvailable st =
     (case activeBackend (fst st) of
        None \<Rightarrow> False
      | Some (Vec b) \<Rightarrow> VecBackend_isAvailable (b, snd st)
      | Some (Vss b) \<Rightarrow> VssBackend_isAvailable (b, snd st))"

definition getBackendType :: "unified_state \<Rightarrow> BackendType" where
  "getBackendType st =
     (case activeBackend (fst st) of None \<Rightarrow> local_js | Some (Vec b) \<Rightarrow> vec | Some (Vss b) \<Rightarrow> vss)"

definition ensureTable :: "native \<Rightarrow> int \<Rightarrow> unified_state \<Rightarrow> unified_state" where
  "ensureTable ext d st =
     (case activeBackend (fst st) of
        None \<Rightarrow> st
      | Some (Vec b) \<Rightarrow>
          (case VecBackend_ensureTable ext d (b, snd st) of (b1, db1) \<Rightarrow> (\<lparr>activeBackend = Some (Vec b1)\<rparr>, db1))
      | Some (Vss b) \<Rightarrow>
          (case VssBackend_ensureTable ext d (b, snd st) of (b1, db1) \<Rightarrow> (\<lparr>activeBackend = Some (Vss b1)\<rparr>, db1)))"

definition upsert :: "native \<Rightarrow> int \<Rightarrow> float32array \<Rightarrow> unified_state \<Rightarrow> error option \<times> unified_state" where
  "upsert ext i v st =
     (case activeBackend (fst st) of
        None \<Rightarrow> (None, st)
      | Some (Vec b) \<Rightarrow>
          (case VecBackend_upsert ext (of_int i) v (b, snd st) of
             (r, (b1, db1)) \<Rightarrow> (r, (\<lparr>activeBackend = Some (Vec b1)\<rparr>, db1)))
      | Some (Vss b) \<Rightarrow>
          (case VssBackend_upsert ext i v (b, snd st) of
             (r, (b1, db1)) \<Rightarrow> (r, (\<lparr>activeBackend = Some (Vss b1)\<rparr>, db1))))"

definition queryNearest :: "native \<Rightarrow> float32array \<Rightarrow> int \<Rightarrow> unified_state \<Rightarrow> (real option \<times> real) list" where
  "queryNearest ext query topk st =
     (case activeBackend (fst st) of
        None \<Rightarrow> []
      | Some (Vec b) \<Rightarrow> VecBackend_queryNearest ext query topk (b, snd st)
      | Some (Vss b) \<Rightarrow> map (\<lambda>r. (Some (of_int (fst r)), snd r)) (VssBackend_queryNearest ext query topk (b, snd st)))"

definition count :: "unified_state \<Rightarrow> int" where
  "count st =
     (case activeBackend (fst st) of
        None \<Rightarrow> 0
      | Some (Vec b) \<Rightarrow> VecBackend_count (b, snd st)
      | Some (Vss b) \<Rightarrow> VssBackend_count (b, snd st))"

section \<open>The hybrid search database\<close>

subsection \<open>Tables\<close>

text \<open>
  The tables of the schema, as lists of rows. The time stamps are left out. A score is a
  real number; a column that is \<^verbatim>\<open>NULL\<close> is \<open>None\<close>.
\<close>

datatype kind = Kfunction | Kmethod | Kclass | Kinterface | Ktype


record code_file =
  f_id :: int
  f_path :: string
  f_sha256 :: string

record code_symbol =
  s_id :: int
  s_file_id :: int
  s_kind :: kind
  s_name :: string
  s_start_byte :: int
  s_end_byte :: int
  s_start_line :: int
  s_end_line :: int
  s_signature :: "string option"
  s_doc :: "string option"
  s_parent_symbol :: "string option"
  s_language :: "string option"

record fts_row =
  fts_name :: string
  fts_doc :: "string option"
  fts_body :: string

record hybrid_db =
  code_files :: "code_file list"
  code_symbols :: "code_symbol list"
  code_symbols_embedding :: "(int \<times> float32array) list"
  code_symbols_fts :: "(int \<times> fts_row) list"

text \<open>A symbol as \<^verbatim>\<open>indexFile\<close> receives it.\<close>

record symbol_input =
  in_kind :: kind
  in_name :: string
  in_start_byte :: int
  in_end_byte :: int
  in_start_line :: int
  in_end_line :: int
  in_signature :: "string option"
  in_doc :: "string option"
  in_parent_symbol :: "string option"
  in_language :: "string option"
  in_embedding :: "float32array option"

definition new_rowid :: "int list \<Rightarrow> int" where
  "new_rowid ids = (if ids = [] then 1 else max_rowid ids + 1)"

text \<open>A row keyed by its row id is replaced or added.\<close>

definition put_row :: "int \<Rightarrow> 'a \<Rightarrow> (int \<times> 'a) list \<Rightarrow> (int \<times> 'a) list" where
  "put_row i v rows = filter (\<lambda>r. fst r \<noteq> i) rows @ [(i, v)]"

definition delete_row :: "int \<Rightarrow> (int \<times> 'a) list \<Rightarrow> (int \<times> 'a) list" where
  "delete_row i rows = filter (\<lambda>r. fst r \<noteq> i) rows"

text \<open>\<^verbatim>\<open>x || null\<close> and \<^verbatim>\<open>x || ''\<close> on an optional string: the empty string is falsy.\<close>

definition or_null :: "string option \<Rightarrow> string option" where
  "or_null x = (case x of None \<Rightarrow> None | Some s \<Rightarrow> if s = [] then None else Some s)"


text \<open>
  \<^verbatim>\<open>slice(start, end)\<close> of a string or an array: a negative index counts from the
  end.
\<close>

definition js_slice :: "'a list \<Rightarrow> int \<Rightarrow> int \<Rightarrow> 'a list" where
  "js_slice s start end' =
     (let len = int (length s);
          from = (if start < 0 then max (len + start) 0 else min start len);
          to = (if end' < 0 then max (len + end') 0 else min end' len)
      in take (nat (to - from)) (drop (nat from) s))"

subsection \<open>The prepared statements\<close>


text \<open>
  \<^verbatim>\<open>upsertSymbol\<close>: insert the symbol, or on a conflict on (file, name, kind, start byte)
  update the other columns except the start line; the documentation is kept when the
  new one is null. The triggers keep the full-text table in step: the row of the symbol is
  written with an empty body.
\<close>

definition conflicts :: "int \<Rightarrow> symbol_input \<Rightarrow> code_symbol \<Rightarrow> bool" where
  "conflicts fileId y s =
     (s_file_id s = fileId \<and> s_name s = in_name y \<and> s_kind s = in_kind y \<and> s_start_byte s = in_start_byte y)"

definition upsertSymbol :: "int \<Rightarrow> symbol_input \<Rightarrow> hybrid_db \<Rightarrow> int \<times> hybrid_db" where
  "upsertSymbol fileId y db =
     (case find (conflicts fileId y) (code_symbols db) of
        Some old \<Rightarrow>
          (let new = old\<lparr>s_end_byte := in_end_byte y, s_end_line := in_end_line y,
                         s_signature := or_null (in_signature y),
                         s_doc := (case or_null (in_doc y) of None \<Rightarrow> s_doc old | Some d \<Rightarrow> Some d),
                         s_parent_symbol := or_null (in_parent_symbol y),
                         s_language := or_null (in_language y)\<rparr>
           in (s_id old,
               db\<lparr>code_symbols := map (\<lambda>s. if conflicts fileId y s then new else s) (code_symbols db),
                  code_symbols_fts := put_row (s_id old) \<lparr>fts_name = s_name new, fts_doc = s_doc new, fts_body = []\<rparr>
                                        (delete_row (s_id old) (code_symbols_fts db))\<rparr>))
      | None \<Rightarrow>
          (let i = new_rowid (map s_id (code_symbols db));
               new = \<lparr>s_id = i, s_file_id = fileId, s_kind = in_kind y, s_name = in_name y,
                      s_start_byte = in_start_byte y, s_end_byte = in_end_byte y,
                      s_start_line = in_start_line y, s_end_line = in_end_line y,
                      s_signature = or_null (in_signature y), s_doc = or_null (in_doc y),
                      s_parent_symbol = or_null (in_parent_symbol y), s_language = or_null (in_language y)\<rparr>
           in (i, db\<lparr>code_symbols := code_symbols db @ [new],
                     code_symbols_fts := put_row i \<lparr>fts_name = s_name new, fts_doc = s_doc new, fts_body = []\<rparr>
                                           (code_symbols_fts db)\<rparr>)))"



subsection \<open>indexFile\<close>



subsection \<open>The search statements\<close>
















subsection \<open>hybridSearch\<close>










section \<open>The search command\<close>

text \<open>
  The fusion of \<^verbatim>\<open>handleSearchCode\<close>, for the results of the full-text search and the
  rows of the nearest-neighbour search (none when there is no query vector or the search
  throws). A relevance is a JavaScript number or undefined; the only number that is not
  finite here is the infinity that the division by zero yields at the distance \<open>-1\<close>.
  The map of distances is filled row by row, so the last row of an id counts.
  \<^verbatim>\<open>x || d\<close> takes \<open>d\<close> when \<open>x\<close> is undefined or zero.
\<close>

datatype jsnum = Undefined | Num real | Infinity

record memory_result =
  m_id :: int
  m_relevance :: jsnum

definition vssMap :: "(int \<times> real) list \<Rightarrow> int \<Rightarrow> real option" where
  "vssMap vssKnn = map_of (rev vssKnn)"

definition distance_or :: "real option \<Rightarrow> real \<Rightarrow> real" where
  "distance_or x d = (case x of None \<Rightarrow> d | Some r \<Rightarrow> if r = 0 then d else r)"

definition relevance_or :: "jsnum \<Rightarrow> real \<Rightarrow> jsnum" where
  "relevance_or x d = (case x of Undefined \<Rightarrow> Num d | Num r \<Rightarrow> if r = 0 then Num d else Num r | Infinity \<Rightarrow> Infinity)"

definition cosineSim :: "real \<Rightarrow> jsnum" where
  "cosineSim vDistance = (if 1 + vDistance = 0 then Infinity else Num (max 0 (1 / (1 + vDistance))))"

text \<open>\<^verbatim>\<open>0.5 * a + 0.5 * b\<close>, where neither number is undefined.\<close>

definition half_sum :: "jsnum \<Rightarrow> jsnum \<Rightarrow> jsnum" where
  "half_sum a b = (case (a, b) of (Num x, Num y) \<Rightarrow> Num (0.5 * x + 0.5 * y) | _ \<Rightarrow> Infinity)"

text \<open>
  The relevance of a result after the hybrid block. The scores are fused only when the
  nearest-neighbour search has returned at least one row; otherwise the block is skipped
  and the relevance stays what the full-text search gave. The sorting and the cut to the
  requested number of results are not part of the definition.
\<close>

definition fusedScore :: "(int \<times> real) list \<Rightarrow> memory_result \<Rightarrow> jsnum" where
  "fusedScore vssKnn r =
     (if vssKnn = [] then m_relevance r
      else
        let vDistance = distance_or (vssMap vssKnn (m_id r)) 999;
            cosine = cosineSim vDistance;
            bm25Score = relevance_or (m_relevance r) 0
        in half_sum bm25Score cosine)"

definition scored :: "(int \<times> real) list \<Rightarrow> memory_result list \<Rightarrow> memory_result list" where
  "scored vssKnn results = map (\<lambda>r. r\<lparr>m_relevance := fusedScore vssKnn r\<rparr>) results"

section \<open>Notions used in the statements\<close>

text \<open>
  The key of a symbol is what the uniqueness constraint of the table is on, next to the
  file: name, kind and start byte. The live symbols of a file are the rows of the symbol
  table with its id.
\<close>

definition file_symbols :: "int \<Rightarrow> hybrid_db \<Rightarrow> code_symbol list" where
  "file_symbols fileId db = filter (\<lambda>s. s_file_id s = fileId) (code_symbols db)"

definition symbol_key :: "code_symbol \<Rightarrow> string \<times> kind \<times> int" where
  "symbol_key s = (s_name s, s_kind s, s_start_byte s)"

definition input_key :: "symbol_input \<Rightarrow> string \<times> kind \<times> int" where
  "input_key y = (in_name y, in_kind y, in_start_byte y)"


section \<open>The code indexer\<close>

subsection \<open>Lines\<close>

text \<open>\<^verbatim>\<open>text.split(/\r?\n/)\<close> and \<^verbatim>\<open>lines.join('\n')\<close>.\<close>

fun split_acc :: "string \<Rightarrow> string \<Rightarrow> string list" where
  "split_acc acc [] = [rev acc]"
| "split_acc acc [c] = (if c = CHR 0x0A then [rev acc, []] else [rev (c # acc)])"
| "split_acc acc (c # d # cs) =
     (if c = CHR 0x0A then rev acc # split_acc [] (d # cs)
      else if c = CHR 0x0D \<and> d = CHR 0x0A then rev acc # split_acc [] cs
      else split_acc (c # acc) (d # cs))"

definition split_lines :: "string \<Rightarrow> string list" where
  "split_lines text = split_acc [] text"

fun join_lines :: "string list \<Rightarrow> string" where
  "join_lines [] = []"
| "join_lines [l] = l"
| "join_lines (l # m # ls) = l @ [CHR 0x0A] @ join_lines (m # ls)"

subsection \<open>The declaration patterns\<close>

text \<open>
  The regular expressions of the heuristic tier, each applied to a trimmed line and
  anchored at its start. \<open>ws1\<close> is \<^verbatim>\<open>\s+\<close>, \<open>opt_kw kw\<close> is the optional group
  \<^verbatim>\<open>(kw\s+)?\<close>, \<open>word1\<close> is \<^verbatim>\<open>(\w+)\<close> and \<open>kw_name kw\<close> is
  \<^verbatim>\<open>kw\s+(\w+)\<close>; the result is the name captured. The keywords of one pattern
  start with different letters, so an optional group that matches is never given up; in
  the method pattern a group that does not lead to a match is tried without.
\<close>

definition ws1 :: "string \<Rightarrow> string option" where
  "ws1 s = (case s of [] \<Rightarrow> None | c # cs \<Rightarrow> if is_space c then Some (dropWhile is_space cs) else None)"

definition opt_kw :: "string \<Rightarrow> string \<Rightarrow> string" where
  "opt_kw kw s =
     (if startsWith s kw then (case ws1 (drop (length kw) s) of Some r \<Rightarrow> r | None \<Rightarrow> s) else s)"

definition word1 :: "string \<Rightarrow> (string \<times> string) option" where
  "word1 s = (case takeWhile is_word s of [] \<Rightarrow> None | c # cs \<Rightarrow> Some (c # cs, dropWhile is_word s))"

definition kw_name :: "string \<Rightarrow> string \<Rightarrow> string option" where
  "kw_name kw s =
     (if startsWith s kw
      then (case ws1 (drop (length kw) s) of None \<Rightarrow> None | Some r \<Rightarrow> map_option fst (word1 r))
      else None)"

text \<open>\<^verbatim>\<open>/^(export\s+)?(async\s+)?function\s+(\w+)/\<close>\<close>

definition funcMatch :: "string \<Rightarrow> string option" where
  "funcMatch trimmed = kw_name ''function'' (opt_kw ''async'' (opt_kw ''export'' trimmed))"

text \<open>\<^verbatim>\<open>/^(export\s+)?(abstract\s+)?class\s+(\w+)/\<close>\<close>

definition classMatch :: "string \<Rightarrow> string option" where
  "classMatch trimmed = kw_name ''class'' (opt_kw ''abstract'' (opt_kw ''export'' trimmed))"

text \<open>\<^verbatim>\<open>/^(export\s+)?interface\s+(\w+)/\<close>\<close>

definition interfaceMatch :: "string \<Rightarrow> string option" where
  "interfaceMatch trimmed = kw_name ''interface'' (opt_kw ''export'' trimmed)"

text \<open>\<^verbatim>\<open>/^(public|private|protected|static)?\s*(async\s+)?(\w+)\s*\(/\<close>\<close>

definition method_tail :: "string \<Rightarrow> string option" where
  "method_tail s =
     (case word1 s of
        None \<Rightarrow> None
      | Some (name, r) \<Rightarrow>
          (case dropWhile is_space r of [] \<Rightarrow> None | c # cs \<Rightarrow> if c = CHR ''('' then Some name else None))"

definition method_async :: "string \<Rightarrow> string option" where
  "method_async s =
     (case (if startsWith s ''async''
            then (case ws1 (drop 5 s) of Some r \<Rightarrow> method_tail r | None \<Rightarrow> None) else None) of
        Some name \<Rightarrow> Some name
      | None \<Rightarrow> method_tail s)"

definition methodMatch :: "string \<Rightarrow> string option" where
  "methodMatch trimmed =
     (case (case find (startsWith trimmed) [''public'', ''private'', ''protected'', ''static''] of
              Some m \<Rightarrow> method_async (dropWhile is_space (drop (length m) trimmed))
            | None \<Rightarrow> None) of
        Some name \<Rightarrow> Some name
      | None \<Rightarrow> method_async (dropWhile is_space trimmed))"

text \<open>\<^verbatim>\<open>/^def\s+(\w+)/\<close> and \<^verbatim>\<open>/^class\s+(\w+)/\<close>\<close>

definition pyFuncMatch :: "string \<Rightarrow> string option" where
  "pyFuncMatch trimmed = kw_name ''def'' trimmed"

definition pyClassMatch :: "string \<Rightarrow> string option" where
  "pyClassMatch trimmed = kw_name ''class'' trimmed"

subsection \<open>The end of a block\<close>

text \<open>
  \<^verbatim>\<open>findBlockEnd\<close>: the characters of the lines from the start index are scanned with a
  count of the open braces; the line of the brace that brings the count back to 0 is the
  end. \<open>scan_line\<close> is the inner loop on one line: whether the end is on it, and the
  count and the flag after it.
\<close>

fun scan_line :: "string \<Rightarrow> int \<Rightarrow> bool \<Rightarrow> bool \<times> int \<times> bool" where
  "scan_line [] braceCount inBlock = (False, braceCount, inBlock)"
| "scan_line (c # cs) braceCount inBlock =
     (if c = CHR ''{'' then scan_line cs (braceCount + 1) True
      else if c = CHR ''}''
      then (if inBlock \<and> braceCount - 1 = 0 then (True, braceCount - 1, inBlock)
            else scan_line cs (braceCount - 1) inBlock)
      else scan_line cs braceCount inBlock)"

function find_from :: "string list \<Rightarrow> nat \<Rightarrow> int \<Rightarrow> bool \<Rightarrow> nat option" where
  "find_from lines i braceCount inBlock =
     (if i < length lines
      then (case scan_line (lines ! i) braceCount inBlock of
              (found, bc, ib) \<Rightarrow> if found then Some i else find_from lines (i + 1) bc ib)
      else None)"
  by pat_completeness auto
termination
  by (relation "measure (\<lambda>(lines, i, bc, ib). length lines - i)") auto

declare find_from.simps [simp del]

definition findBlockEnd :: "string list \<Rightarrow> nat \<Rightarrow> int" where
  "findBlockEnd lines startIndex =
     (case find_from lines startIndex 0 False of
        Some i \<Rightarrow> int i
      | None \<Rightarrow> min (int startIndex + 50) (int (length lines) - 1))"

text \<open>The Python block: it ends before the next line that is not blank and not indented deeper.\<close>

fun getIndentLevel :: "string \<Rightarrow> nat" where
  "getIndentLevel [] = 0"
| "getIndentLevel (c # cs) =
     (if c = CHR '' '' then 1 + getIndentLevel cs
      else if c = CHR 0x09 then 4 + getIndentLevel cs
      else 0)"

function python_block_from :: "string list \<Rightarrow> nat \<Rightarrow> nat \<Rightarrow> int" where
  "python_block_from lines startIndent i =
     (if i < length lines
      then (if trim (lines ! i) = [] then python_block_from lines startIndent (i + 1)
            else if getIndentLevel (lines ! i) \<le> startIndent then int i - 1
            else python_block_from lines startIndent (i + 1))
      else int (length lines) - 1)"
  by pat_completeness auto
termination
  by (relation "measure (\<lambda>(lines, startIndent, i). length lines - i)") auto

declare python_block_from.simps [simp del]

definition findPythonBlockEnd :: "string list \<Rightarrow> nat \<Rightarrow> int" where
  "findPythonBlockEnd lines startIndex =
     (if startIndex \<ge> length lines then int startIndex
      else python_block_from lines (getIndentLevel (lines ! startIndex)) (startIndex + 1))"

text \<open>
  \<^verbatim>\<open>isInsidePythonClass\<close>: the lines above the index, from the nearest one upwards. The
  second argument of \<open>inside_class_from\<close> is one more than the index of the line looked at.
\<close>

fun inside_class_from :: "string list \<Rightarrow> nat \<Rightarrow> bool" where
  "inside_class_from lines 0 = False"
| "inside_class_from lines (Suc i) =
     (if startsWith (trim (lines ! i)) ''class '' then True
      else if startsWith (trim (lines ! i)) ''def '' \<and> getIndentLevel (lines ! i) = 0 then False
      else inside_class_from lines i)"

definition isInsidePythonClass :: "string list \<Rightarrow> nat \<Rightarrow> bool" where
  "isInsidePythonClass lines lineIndex = inside_class_from lines lineIndex"

subsection \<open>Symbols of the heuristic tier\<close>

datatype symbolType = Tfunction | Tclass | Tmethod | Tvariable | Tinterface | Ttype | Timport

fun symbolType_name :: "symbolType \<Rightarrow> string" where
  "symbolType_name Tfunction = ''function''"
| "symbolType_name Tclass = ''class''"
| "symbolType_name Tmethod = ''method''"
| "symbolType_name Tvariable = ''variable''"
| "symbolType_name Tinterface = ''interface''"
| "symbolType_name Ttype = ''type''"
| "symbolType_name Timport = ''import''"

record symbol =
  sy_startLine :: int
  sy_endLine :: int
  sy_name :: string
  sy_type :: symbolType
  sy_content :: string
  sy_signature :: "string option"
  sy_docstring :: "string option"
  sy_parent :: "string option"

text \<open>
  What every branch of the two extraction loops pushes for a declaration found on the
  line \<open>i\<close> whose block ends on the line \<open>e\<close>: the line numbers are one more than
  the indices.
\<close>

definition push :: "string list \<Rightarrow> nat \<Rightarrow> int \<Rightarrow> string \<Rightarrow> symbolType \<Rightarrow> string option \<Rightarrow> symbol" where
  "push lines i e nm ty sig =
     \<lparr>sy_startLine = int i + 1, sy_endLine = e + 1, sy_name = nm, sy_type = ty,
      sy_content = join_lines (js_slice lines (int i) (e + 1)),
      sy_signature = sig, sy_docstring = None, sy_parent = None\<rparr>"

text \<open>The body of the loop of \<^verbatim>\<open>extractTypeScriptSymbols\<close> at the index \<open>i\<close>.\<close>

definition typescript_at :: "string list \<Rightarrow> nat \<Rightarrow> symbol list" where
  "typescript_at lines i =
     (let trimmed = trim (lines ! i);
          sig = Some (trim (takeWhile (\<lambda>c. c \<noteq> CHR ''{'') trimmed))
      in case funcMatch trimmed of
           Some nm \<Rightarrow> [push lines i (findBlockEnd lines i) nm Tfunction sig]
         | None \<Rightarrow>
        (case classMatch trimmed of
           Some nm \<Rightarrow> [push lines i (findBlockEnd lines i) nm Tclass None]
         | None \<Rightarrow>
        (case interfaceMatch trimmed of
           Some nm \<Rightarrow> [push lines i (findBlockEnd lines i) nm Tinterface None]
         | None \<Rightarrow>
        (case methodMatch trimmed of
           Some nm \<Rightarrow>
             if \<not> str_includes trimmed ''function'' \<and> \<not> str_includes trimmed ''=''
                \<and> nm \<notin> set [''if'', ''for'', ''while'', ''switch'', ''catch'']
             then [push lines i (findBlockEnd lines i) nm Tmethod sig]
             else []
         | None \<Rightarrow> []))))"

function extractTypeScriptSymbols :: "string list \<Rightarrow> nat \<Rightarrow> symbol list \<Rightarrow> symbol list" where
  "extractTypeScriptSymbols lines i symbols =
     (if i < length lines
      then extractTypeScriptSymbols lines (i + 1) (symbols @ typescript_at lines i)
      else symbols)"
  by pat_completeness auto
termination
  by (relation "measure (\<lambda>(lines, i, symbols). length lines - i)") auto

declare extractTypeScriptSymbols.simps [simp del]

text \<open>The body of the loop of \<^verbatim>\<open>extractPythonSymbolsHeuristic\<close> at the index \<open>i\<close>.\<close>

definition python_at :: "string list \<Rightarrow> nat \<Rightarrow> symbol list" where
  "python_at lines i =
     (let trimmed = trim (lines ! i)
      in case pyFuncMatch trimmed of
           Some nm \<Rightarrow>
             [push lines i (findPythonBlockEnd lines i) nm
                (if isInsidePythonClass lines i then Tmethod else Tfunction) (Some trimmed)]
         | None \<Rightarrow>
        (case pyClassMatch trimmed of
           Some nm \<Rightarrow> [push lines i (findPythonBlockEnd lines i) nm Tclass None]
         | None \<Rightarrow> []))"

function extractPythonSymbolsHeuristic :: "string list \<Rightarrow> nat \<Rightarrow> symbol list \<Rightarrow> symbol list" where
  "extractPythonSymbolsHeuristic lines i symbols =
     (if i < length lines
      then extractPythonSymbolsHeuristic lines (i + 1) (symbols @ python_at lines i)
      else symbols)"
  by pat_completeness auto
termination
  by (relation "measure (\<lambda>(lines, i, symbols). length lines - i)") auto

declare extractPythonSymbolsHeuristic.simps [simp del]

text \<open>The language is what \<^verbatim>\<open>detectLanguage\<close> gives for the path, possibly nothing.\<close>

definition extractSymbolsHeuristically :: "string \<Rightarrow> string option \<Rightarrow> symbol list" where
  "extractSymbolsHeuristically text language =
     (let lines = split_lines text
      in if language = Some ''typescript'' \<or> language = Some ''javascript''
         then extractTypeScriptSymbols lines 0 []
         else if language = Some ''python'' then extractPythonSymbolsHeuristic lines 0 []
         else [])"

subsection \<open>The AST tier\<close>

text \<open>
  A node of the syntax tree: its type, the rows of its start and of its end, its text and
  its children. The parser is a parameter: for a content it gives the root of the tree,
  or nothing when there is no parser for the language, no tree, or an exception. The
  language of the file is what \<^verbatim>\<open>getLanguageForFile\<close> gives for its path.
\<close>

datatype node = Node (n_type: string) (n_startRow: int) (n_endRow: int) (n_text: string) (n_children: "node list")

record SymbolInfo = symbol +
  sy_language :: string
  sy_filePath :: string

text \<open>\<^verbatim>\<open>content.split('\n')\<close> and \<^verbatim>\<open>line.indexOf(c)\<close>.\<close>

fun split_lf_acc :: "string \<Rightarrow> string \<Rightarrow> string list" where
  "split_lf_acc acc [] = [rev acc]"
| "split_lf_acc acc (c # cs) =
     (if c = CHR 0x0A then rev acc # split_lf_acc [] cs else split_lf_acc (c # acc) cs)"

definition split_lf :: "string \<Rightarrow> string list" where
  "split_lf text = split_lf_acc [] text"

definition indexOf :: "string \<Rightarrow> char \<Rightarrow> int" where
  "indexOf s c = (if c \<in> set s then int (length (takeWhile (\<lambda>x. x \<noteq> c) s)) else - 1)"

text \<open>A string is truthy when it is there and not empty.\<close>

definition truthy :: "string option \<Rightarrow> bool" where
  "truthy x = (case x of None \<Rightarrow> False | Some s \<Rightarrow> s \<noteq> [])"

definition extractNameFromTSNode :: "node \<Rightarrow> string option" where
  "extractNameFromTSNode nd =
     map_option n_text
       (find (\<lambda>child. n_type child = ''identifier'' \<or> n_type child = ''type_identifier'') (n_children nd))"

definition extractNameFromPythonNode :: "node \<Rightarrow> string option" where
  "extractNameFromPythonNode nd =
     map_option n_text (find (\<lambda>child. n_type child = ''identifier'') (n_children nd))"

definition extractSignatureFromNode :: "node \<Rightarrow> string list \<Rightarrow> string \<Rightarrow> string" where
  "extractSignatureFromNode nd lines language =
     (let startLine = n_startRow nd
      in if startLine \<ge> int (length lines) then []
         else
           (let line = (if 0 \<le> startLine then lines ! nat startLine else [])
            in if language = ''typescript'' \<or> language = ''javascript''
               then (let braceIndex = indexOf line (CHR ''{'')
                     in if braceIndex > 0 then trim (take (nat braceIndex) line) else trim line)
               else if language = ''python''
               then (let colonIndex = indexOf line (CHR '':'')
                     in if colonIndex > 0 then trim (take (nat (colonIndex + 1)) line) else trim line)
               else trim line))"

text \<open>
  The name, the type and the parent that the switch on the language leaves for a node.
  A class node sets the parent to its own name, for its own symbol only.
\<close>

definition detect :: "node \<Rightarrow> string \<Rightarrow> string option \<Rightarrow> string option \<times> symbolType option \<times> string option" where
  "detect nd language parent =
     (if language = ''typescript'' \<or> language = ''javascript''
      then (if n_type nd = ''function_declaration'' then (extractNameFromTSNode nd, Some Tfunction, parent)
            else if n_type nd = ''class_declaration''
            then (extractNameFromTSNode nd, Some Tclass,
                  if truthy (extractNameFromTSNode nd) then extractNameFromTSNode nd else parent)
            else if n_type nd = ''method_definition'' then (extractNameFromTSNode nd, Some Tmethod, parent)
            else if n_type nd = ''interface_declaration'' then (extractNameFromTSNode nd, Some Tinterface, parent)
            else if n_type nd = ''type_alias_declaration'' then (extractNameFromTSNode nd, Some Ttype, parent)
            else (None, None, parent))
      else if language = ''python''
      then (if n_type nd = ''function_definition''
            then (extractNameFromPythonNode nd, Some (if truthy parent then Tmethod else Tfunction), parent)
            else if n_type nd = ''class_definition''
            then (extractNameFromPythonNode nd, Some Tclass,
                  if truthy (extractNameFromPythonNode nd) then extractNameFromPythonNode nd else parent)
            else (None, None, parent))
      else (None, None, parent))"

text \<open>
  \<^verbatim>\<open>extractSymbolFromNode\<close>: a node whose rows are not rows of the content is skipped;
  the rows of the symbol are those of the node, counted from 0.
\<close>

definition extractSymbolFromNode ::
  "node \<Rightarrow> string list \<Rightarrow> string \<Rightarrow> string \<Rightarrow> string option \<Rightarrow> SymbolInfo option" where
  "extractSymbolFromNode nd lines language filePath parent =
     (let startLine = n_startRow nd; endLine = n_endRow nd
      in if startLine < 0 \<or> startLine \<ge> int (length lines) \<or> endLine < 0 \<or> endLine \<ge> int (length lines)
         then None
         else (case detect nd language parent of
                 (Some symbolName, Some symbolType, parent1) \<Rightarrow>
                   if symbolName = [] then None
                   else Some \<lparr>sy_startLine = startLine, sy_endLine = endLine, sy_name = symbolName,
                              sy_type = symbolType, sy_content = n_text nd,
                              sy_signature = Some (extractSignatureFromNode nd lines language),
                              sy_docstring = None, sy_parent = parent1,
                              sy_language = language, sy_filePath = filePath\<rparr>
               | _ \<Rightarrow> None))"

fun traverseTreeSitterNode ::
  "node \<Rightarrow> string list \<Rightarrow> string \<Rightarrow> string \<Rightarrow> string option \<Rightarrow> SymbolInfo list" where
  "traverseTreeSitterNode (Node ty s e tx cs) lines language filePath parent =
     (case extractSymbolFromNode (Node ty s e tx cs) lines language filePath parent of
        None \<Rightarrow> []
      | Some x \<Rightarrow> [x])
     @ concat (map (\<lambda>child. traverseTreeSitterNode child lines language filePath parent) cs)"

definition extractSymbols ::
  "(string \<Rightarrow> node option) \<Rightarrow> string option \<Rightarrow> string \<Rightarrow> string \<Rightarrow> SymbolInfo list" where
  "extractSymbols parse language filePath content =
     (case language of
        None \<Rightarrow> []
      | Some lang \<Rightarrow>
          (case parse content of
             None \<Rightarrow> []
           | Some rootNode \<Rightarrow> traverseTreeSitterNode rootNode (split_lf content) lang filePath None))"

text \<open>The nodes of a tree.\<close>

fun nodes :: "node \<Rightarrow> node list" where
  "nodes (Node ty s e tx cs) = Node ty s e tx cs # concat (map nodes cs)"

subsection \<open>Chunks\<close>

datatype parseMode = ast | heuristic | fallback

record chunk =
  c_text :: string
  c_file :: string
  c_language :: "string option"
  c_lineStart :: int
  c_lineEnd :: int
  c_symbolName :: "string option"
  c_symbolType :: "symbolType option"
  c_signature :: "string option"
  c_docstring :: "string option"
  c_parentSymbol :: "string option"
  c_isTreeSitterParsed :: bool
  c_parseMode :: parseMode
  c_tags :: "string list"

record options =
  maxChunkLines :: "int option"
  astFallback :: "bool option"
  includeDocstrings :: "bool option"
  includeSignatures :: "bool option"

definition generateHeuristicTags :: "symbol \<Rightarrow> string list" where
  "generateHeuristicTags s =
     [symbolType_name (sy_type s), ''heuristic-parsed'']
     @ (case sy_parent s of
          Some p \<Rightarrow> if p = [] then [''top-level''] else [''nested'', ''parent:'' @ p]
        | None \<Rightarrow> [''top-level''])"

text \<open>
  The tiers, and the functions that run them. Next to its chunks each function returns
  the tiers that were run for the file, in order. A result of \<open>None\<close> is a loop that
  does not end.
\<close>

datatype tier = AstTier | HeuristicTier | WindowTier

text \<open>
  \<^verbatim>\<open>fallbackToHeuristicChunking\<close>: windows of \<open>maxLines\<close> lines. The loop adds
  \<open>maxLines\<close> to its index, so it ends only if that is positive.
\<close>

function windows :: "string \<Rightarrow> string option \<Rightarrow> string list \<Rightarrow> int \<Rightarrow> nat \<Rightarrow> chunk list" where
  "windows file language lines maxLines i =
     (if 0 < maxLines \<and> i < length lines
      then \<lparr>c_text = join_lines (js_slice lines (int i) (min (int i + maxLines) (int (length lines)))),
            c_file = file, c_language = language,
            c_lineStart = int i + 1, c_lineEnd = min (int i + maxLines) (int (length lines)),
            c_symbolName = None, c_symbolType = None, c_signature = None, c_docstring = None,
            c_parentSymbol = None, c_isTreeSitterParsed = False, c_parseMode = heuristic,
            c_tags = [''heuristic-chunk'']\<rparr>
           # windows file language lines maxLines (i + nat maxLines)
      else [])"
  by pat_completeness auto
termination
  by (relation "measure (\<lambda>(file, language, lines, maxLines, i). length lines - i)") auto

declare windows.simps [simp del]

definition fallbackToHeuristicChunking ::
  "string \<Rightarrow> string option \<Rightarrow> string \<Rightarrow> options \<Rightarrow> tier list \<times> chunk list option" where
  "fallbackToHeuristicChunking file language text opts =
     (let lines = split_lines text;
          maxLines = (case maxChunkLines opts of None \<Rightarrow> 200 | Some m \<Rightarrow> m)
      in ([WindowTier], if maxLines \<le> 0 then None else Some (windows file language lines maxLines 0)))"

definition symbol_chunk :: "string \<Rightarrow> string option \<Rightarrow> symbol \<Rightarrow> chunk" where
  "symbol_chunk file language s =
     \<lparr>c_text = sy_content s, c_file = file, c_language = language,
      c_lineStart = sy_startLine s, c_lineEnd = sy_endLine s,
      c_symbolName = Some (sy_name s), c_symbolType = Some (sy_type s),
      c_signature = sy_signature s, c_docstring = sy_docstring s, c_parentSymbol = sy_parent s,
      c_isTreeSitterParsed = False, c_parseMode = heuristic,
      c_tags = generateHeuristicTags s\<rparr>"

definition enhancedHeuristicChunking ::
  "string \<Rightarrow> string option \<Rightarrow> string \<Rightarrow> options \<Rightarrow> tier list \<times> chunk list option" where
  "enhancedHeuristicChunking file language text opts =
     (let symbols = extractSymbolsHeuristically text language
      in if length symbols > 0
         then ([HeuristicTier], Some (map (symbol_chunk file language) symbols))
         else (case fallbackToHeuristicChunking file language text opts of
                 (ts, r) \<Rightarrow> (HeuristicTier # ts, r)))"

text \<open>
  \<^verbatim>\<open>chunkFileWithTreeSitter\<close>: Tree-sitter is disabled in the source, which returns the
  result of the heuristic chunking before the first statement of the AST tier; the
  extractor of the AST tier, \<open>treeSitter\<close>, is never asked.
\<close>

definition chunkFileWithTreeSitter ::
  "(string \<Rightarrow> string \<Rightarrow> SymbolInfo list) \<Rightarrow> string \<Rightarrow> string option \<Rightarrow> string \<Rightarrow> options \<Rightarrow> tier list \<times> chunk list option" where
  "chunkFileWithTreeSitter treeSitter file language text opts =
     enhancedHeuristicChunking file language text opts"

text \<open>
  The line numbers of a symbol lie in a file of \<open>n\<close> lines, counted from 1, and the
  start is not after the end.
\<close>

definition in_bounds :: "nat \<Rightarrow> symbol \<Rightarrow> bool" where
  "in_bounds n s \<longleftrightarrow> 1 \<le> sy_startLine s \<and> sy_startLine s \<le> sy_endLine s \<and> sy_endLine s \<le> int n"

section \<open>Sample inputs\<close>

text \<open>
  Concrete databases, extensions and environments, on which the theorems below are
  evaluated: an empty database; a platform that writes and reads the numbers 1.5 and
  999999 as JavaScript does (the other conversions of the sample are not JavaScript's),
  accepts every table and row and finds nothing; one whose vector table refuses every
  row; a machine with no native library, one with the two sqlite-vss libraries, and a
  Windows machine with the sqlite-vec library.
\<close>

definition empty_db :: database where
  "empty_db = \<lparr>memory_items = None, memory_vectors_vec = None, memory_vectors_vss = None\<rparr>"

definition accepting_native :: native where
  "accepting_native =
     \<lparr>number_string = (\<lambda>x. if x = 3 / 2 then ''1.5'' else if x = 999999 then ''999999'' else ''0''),
      parse_int = (\<lambda>s. if s = ''1.5'' then Some 1 else if s = ''999999'' then Some 999999 else None),
      returning_supported = True,
      vec_create = (\<lambda>d. None), vec_insert = (\<lambda>t i v. None), vec_match = (\<lambda>t q k. Inr []),
      vss_create = (\<lambda>d. None), vss_insert = (\<lambda>t i v. None), vss_search = (\<lambda>t q. Inr [])\<rparr>"

definition env_none :: environment where
  "env_none = \<lparr>os_platform = Linux, existsSync = (\<lambda>l. False), loadExtension = (\<lambda>l. None)\<rparr>"

definition env_vss :: environment where
  "env_vss = \<lparr>os_platform = Linux, existsSync = (\<lambda>l. l = VssVectorPath \<or> l = VssPath),
               loadExtension = (\<lambda>l. None)\<rparr>"

definition env_vec :: environment where
  "env_vec = \<lparr>os_platform = Win32, existsSync = (\<lambda>l. l = VecManualPath), loadExtension = (\<lambda>l. None)\<rparr>"

definition rejecting_native :: native where
  "rejecting_native = accepting_native\<lparr>vec_insert := (\<lambda>t i v. Some ''database or disk is full'')\<rparr>"

text \<open>
  An empty search database; the function symbol of a given name at the start of a file;
  a database with the file \<^verbatim>\<open>a.ts\<close> and its one symbol \<open>foo\<close>; search options with
  nothing set; and two engines whose full-text index matches that symbol with a given
  raw rank: one without the table-valued function \<^verbatim>\<open>vec_search\<close>, and one whose
  vector search runs and finds nothing.
\<close>

definition empty_hybrid_db :: hybrid_db where
  "empty_hybrid_db = \<lparr>code_files = [], code_symbols = [], code_symbols_embedding = [], code_symbols_fts = []\<rparr>"






text \<open>
  Options with nothing set, and a parser that gives the tree of the one-line file
  \<^verbatim>\<open>type T = number;\<close> for every content.
\<close>

definition no_options :: options where
  "no_options = \<lparr>maxChunkLines = None, astFallback = None, includeDocstrings = None, includeSignatures = None\<rparr>"

definition type_alias_parser :: "string \<Rightarrow> node option" where
  "type_alias_parser text =
     Some (Node ''program'' 0 0 ''type T = number;''
       [Node ''type_alias_declaration'' 0 0 ''type T = number;''
          [Node ''type'' 0 0 ''type'' [], Node ''type_identifier'' 0 0 ''T'' [],
           Node ''='' 0 0 ''='' [], Node ''predefined_type'' 0 0 ''number'' [], Node '';'' 0 0 '';'' []]])"

section \<open>Properties of the JavaScript strings\<close>

lemma startsWith_iff: "startsWith s p \<longleftrightarrow> (\<exists>r. s = p @ r)"
  unfolding startsWith_def
proof
  assume "take (length p) s = p"
  then have "s = p @ drop (length p) s"
    by (metis append_take_drop_id)
  then show "\<exists>r. s = p @ r" ..
next
  assume "\<exists>r. s = p @ r"
  then show "take (length p) s = p" by auto
qed

lemma startsWith_append: "startsWith s p \<Longrightarrow> startsWith (s @ t) p"
  by (auto simp: startsWith_iff)

lemma str_includes_nil: "str_includes t []"
  by (cases t) (simp_all add: startsWith_def)

lemma str_includes_append: "str_includes s p \<Longrightarrow> str_includes (s @ t) p"
proof (induction s)
  case Nil
  then show ?case by (simp add: str_includes_nil)
next
  case (Cons a s)
  have "startsWith (a # s) p \<Longrightarrow> startsWith (a # s @ t) p"
    using startsWith_append[of "a # s" p t] by simp
  with Cons show ?case by auto
qed

lemma includes_dimension: "str_includes ''Vector dimension '' ''dimension''"
  by (simp add: startsWith_def)

lemma assertDim_message:
  "assertDim ext v d = Some e \<Longrightarrow> str_includes (message e) ''dimension''"
proof -
  assume "assertDim ext v d = Some e"
  then have "message e = ''Vector dimension '' @ (number_string ext (real (length v)) @ '' != ''
      @ number_string ext (of_int d))"
    by (simp add: assertDim_def split: if_splits) (metis error.sel)
  then show ?thesis
    using str_includes_append[OF includes_dimension] by simp
qed

lemma assertDim_fails: "int (length v) \<noteq> d \<Longrightarrow> \<exists>e. assertDim ext v d = Some e"
  by (simp add: assertDim_def)

section \<open>Properties of the vector backends\<close>

lemma set_limit: "set (limit k xs) \<subseteq> set xs"
  by (auto simp: limit_def dest: in_set_takeD)

subsection \<open>Dimension validation\<close>

text \<open>
  \<^verbatim>\<open>VecBackend.upsert\<close> validates the dimension before anything is written: a vector
  of another length than the recorded dimension makes it throw the error of
  \<open>assertDim\<close>, and the backend and the database stay as they were.
\<close>

lemma VecBackend_upsert_dimension:
  assumes "vec_loaded b" "vec_dim b = Some d" "int (length v) \<noteq> d"
  shows "\<exists>e. VecBackend_upsert ext i v (b, db) = (Some e, (b, db)) \<and> assertDim ext v d = Some e"
proof -
  obtain e where e: "assertDim ext v d = Some e"
    using assertDim_fails[OF assms(3)] by blast
  have "upsert_body ext d i v db = (Some e, db)"
    by (simp add: upsert_body_def e)
  then have "VecBackend_upsert ext i v (b, db) = (Some e, (b, db))"
    using assms(1,2) assertDim_message[OF e] by (simp add: VecBackend_upsert_def)
  with e show ?thesis by blast
qed

text \<open>\<^verbatim>\<open>VssBackend.upsert\<close> has no such validation, and no exception ever leaves it.\<close>

lemma VssBackend_upsert_never_throws:
  "fst (VssBackend_upsert ext i v st) = None"
  by (auto simp: VssBackend_upsert_def split: prod.splits option.splits)

text \<open>
  Claim C1 (upsert of a vector of the wrong length fails with a dimension error and writes
  nothing, for every backend). On the sqlite-vss backend, loaded, with its table
  established at dimension 384, the upsert of a vector of length 3 throws nothing: if the
  extension accepts the row it is written, and the count goes from 0 to 1; if the
  extension refuses it, the exception is swallowed and the backend is marked as not
  loaded.
\<close>

theorem VssBackend_upsert_wrong_dimension:
  "VssBackend_count (\<lparr>vss_loaded = True, vss_dim = Some 384\<rparr>,
      empty_db\<lparr>memory_vectors_vss := Some \<lparr>vt_dim = 384, vt_rows = []\<rparr>\<rparr>) = 0
   \<and> VssBackend_count (snd (VssBackend_upsert ext 1 [1, 2, 3]
       (\<lparr>vss_loaded = True, vss_dim = Some 384\<rparr>,
        empty_db\<lparr>memory_vectors_vss := Some \<lparr>vt_dim = 384, vt_rows = []\<rparr>\<rparr>)))
     = (case vss_insert ext \<lparr>vt_dim = 384, vt_rows = []\<rparr> 1 [1, 2, 3] of None \<Rightarrow> 1 | Some msg \<Rightarrow> 0)
   \<and> VssBackend_upsert ext 1 [1, 2, 3]
     (\<lparr>vss_loaded = True, vss_dim = Some 384\<rparr>,
      empty_db\<lparr>memory_vectors_vss := Some \<lparr>vt_dim = 384, vt_rows = []\<rparr>\<rparr>)
   = (case vss_insert ext \<lparr>vt_dim = 384, vt_rows = []\<rparr> 1 [1, 2, 3] of
        None \<Rightarrow> (None, (\<lparr>vss_loaded = True, vss_dim = Some 384\<rparr>,
                  empty_db\<lparr>memory_vectors_vss := Some \<lparr>vt_dim = 384, vt_rows = [(1, [1, 2, 3])]\<rparr>\<rparr>))
      | Some msg \<Rightarrow> (None, (\<lparr>vss_loaded = False, vss_dim = Some 384\<rparr>,
                  empty_db\<lparr>memory_vectors_vss := Some \<lparr>vt_dim = 384, vt_rows = []\<rparr>\<rparr>)))"
  by (simp add: VssBackend_upsert_def VssBackend_count_def empty_db_def insert_or_replace_def
      split: option.splits)

subsection \<open>ensureTable\<close>

text \<open>
  Claim C9 (a later \<^verbatim>\<open>ensureTable\<close> with another dimension leaves the recorded
  dimension unchanged). On a freshly loaded sqlite-vec backend the first call records the
  dimension \<open>d\<close> and creates the table with it; a second call with \<open>d' \<noteq> d\<close>
  leaves the database as it is, so the table keeps the dimension \<open>d\<close>, and records
  \<open>d'\<close> as the dimension of the backend.
\<close>

theorem ensureTable_second_call_changes_dim:
  assumes "vec_create ext d = None" and "d' \<noteq> d"
  shows "let st1 = VecBackend_ensureTable ext d (\<lparr>vec_loaded = True, vec_dim = None\<rparr>, empty_db);
             st2 = VecBackend_ensureTable ext d' st1
         in vec_dim (fst st1) = Some d \<and> vec_dim (fst st2) = Some d'
            \<and> map_option vt_dim (memory_vectors_vec (snd st2)) = Some d \<and> snd st2 = snd st1"
  using assms by (simp add: VecBackend_ensureTable_def empty_db_def Let_def)

theorem ensureTable_second_call_changes_dim_witness:
  "let st1 = VecBackend_ensureTable accepting_native 384 (\<lparr>vec_loaded = True, vec_dim = None\<rparr>, empty_db);
       st2 = VecBackend_ensureTable accepting_native 768 st1
   in vec_dim (fst st1) = Some 384 \<and> vec_dim (fst st2) = Some 768
      \<and> map_option vt_dim (memory_vectors_vec (snd st2)) = Some 384 \<and> snd st2 = snd st1"
  using ensureTable_second_call_changes_dim[of accepting_native 384 768]
  by (simp add: accepting_native_def)

text \<open>The sqlite-vss backend does the same.\<close>

lemma VssBackend_ensureTable_changes_dim:
  assumes "vss_create ext d = None" and "d' \<noteq> d"
  shows "let st1 = VssBackend_ensureTable ext d (\<lparr>vss_loaded = True, vss_dim = None\<rparr>, empty_db);
             st2 = VssBackend_ensureTable ext d' st1
         in vss_dim (fst st1) = Some d \<and> vss_dim (fst st2) = Some d'
            \<and> map_option vt_dim (memory_vectors_vss (snd st2)) = Some d \<and> snd st2 = snd st1"
  using assms by (simp add: VssBackend_ensureTable_def empty_db_def Let_def)

subsection \<open>The key mapping\<close>

lemma max_rowid_ge: "x \<in> set xs \<Longrightarrow> x \<le> max_rowid xs"
  by (induction xs rule: max_rowid.induct) auto

lemma next_rowid_fresh: "it \<in> set its \<Longrightarrow> item_id it \<noteq> next_rowid its"
proof
  assume a: "it \<in> set its" and e: "item_id it = next_rowid its"
  from a have "item_id it \<le> max_rowid (map item_id its)"
    by (intro max_rowid_ge) simp
  moreover from a have "its \<noteq> []" by auto
  ultimately show False using e by (simp add: next_rowid_def)
qed

lemma find_key_Some: "find_key k its = Some it \<Longrightarrow> it \<in> set its \<and> item_key it = k"
  unfolding find_key_def by (induction its) (auto split: if_splits)

lemma find_key_None: "find_key k its = None \<Longrightarrow> \<forall>it \<in> set its. item_key it \<noteq> k"
  unfolding find_key_def by (induction its) (auto split: if_splits)

lemma find_key_append_new:
  "find_key k its = None \<Longrightarrow> find_key k (its @ [\<lparr>item_id = n, item_key = k, item_payload = p\<rparr>])
     = Some \<lparr>item_id = n, item_key = k, item_payload = p\<rparr>"
  unfolding find_key_def by (induction its) (auto split: if_splits)

lemma find_key_map_payload:
  "find_key k its = Some it \<Longrightarrow>
   \<exists>it'. find_key k (map (\<lambda>x. if item_key x = k then x\<lparr>item_payload := f x\<rparr> else x) its) = Some it'
         \<and> item_id it' = item_id it"
  unfolding find_key_def by (induction its) (auto split: if_splits)

text \<open>Joining one hit with a key table whose ids are distinct.\<close>

lemma join_items_single:
  assumes "distinct (map item_id its)" and "it \<in> set its"
  shows "join_items its [(item_id it, d)] = [(item_key it, d)]"
proof -
  have "filter (\<lambda>x. item_id x = item_id it) its = [it]"
    using assms
  proof (induction its)
    case Nil
    then show ?case by simp
  next
    case (Cons a its)
    show ?case
    proof (cases "a = it")
      case True
      with Cons.prems have "item_id it \<notin> item_id ` set its" by simp
      then have "\<forall>x \<in> set its. item_id x \<noteq> item_id it" by (metis image_eqI)
      then have "filter (\<lambda>x. item_id x = item_id it) its = []"
        by (simp add: filter_empty_conv)
      with True show ?thesis by simp
    next
      case False
      with Cons.prems have "it \<in> set its" "item_id a \<noteq> item_id it" by auto
      with Cons show ?thesis by simp
    qed
  qed
  then show ?thesis by (simp add: join_items_def)
qed

text \<open>What \<open>getOrCreateIdForKey\<close> leaves behind: the key is in the table under the id returned.\<close>

lemma getOrCreateIdForKey_result:
  assumes "memory_items db = Some its" and "distinct (map item_id its)"
      and "getOrCreateIdForKey ext key p db = (Inr m, db1)"
  shows "memory_vectors_vec db1 = memory_vectors_vec db \<and>
         (\<exists>its1 it. memory_items db1 = Some its1 \<and> distinct (map item_id its1)
            \<and> find_key key its1 = Some it \<and> item_id it = m)"
proof (cases "find_key key its")
  case None
  let ?new = "\<lparr>item_id = next_rowid its, item_key = key, item_payload = p\<rparr>"
  from None assms(1,3) have r: "m = next_rowid its" "db1 = db\<lparr>memory_items := Some (its @ [?new])\<rparr>"
    by (auto simp: getOrCreateIdForKey_def find_key_append_new Let_def split: if_splits)
  have "next_rowid its \<notin> item_id ` set its"
    using next_rowid_fresh by force
  then have "distinct (map item_id (its @ [?new]))"
    using assms(2) by simp
  moreover have "find_key key (its @ [?new]) = Some ?new"
    using None by (rule find_key_append_new)
  ultimately show ?thesis using r by simp
next
  case (Some it)
  show ?thesis
  proof (cases "returning_supported ext")
    case True
    let ?its1 = "map (\<lambda>x. if item_key x = key
        then x\<lparr>item_payload := (case p of None \<Rightarrow> item_payload x | Some q \<Rightarrow> Some q)\<rparr> else x) its"
    from Some True assms(1,3) have r: "m = item_id it" "db1 = db\<lparr>memory_items := Some ?its1\<rparr>"
      by (auto simp: getOrCreateIdForKey_def)
    have "map item_id ?its1 = map item_id its" by (induction its) auto
    with assms(2) have "distinct (map item_id ?its1)" by metis
    moreover obtain it' where "find_key key ?its1 = Some it'" "item_id it' = item_id it"
      using find_key_map_payload[OF Some,
          where f = "\<lambda>x. case p of None \<Rightarrow> item_payload x | Some q \<Rightarrow> Some q"] by blast
    ultimately show ?thesis using r by auto
  next
    case False
    from Some False assms(1,3) have "m = item_id it" "db1 = db\<lparr>memory_items := Some its\<rparr>"
      by (auto simp: getOrCreateIdForKey_def)
    then show ?thesis using Some assms(2) by simp
  qed
qed

lemma getOrCreateIdForKey_existing:
  assumes "memory_items db = Some its" and "find_key key its = Some it"
  shows "fst (getOrCreateIdForKey ext key p db) = Inr (item_id it)"
  using assms by (simp add: getOrCreateIdForKey_def)

lemma getOrCreateIdForKey_absent:
  assumes "memory_items db = Some its" and "find_key key its = None"
  shows "getOrCreateIdForKey ext key p db
         = (Inr (next_rowid its),
            db\<lparr>memory_items := Some (its @ [\<lparr>item_id = next_rowid its, item_key = key, item_payload = p\<rparr>])\<rparr>)"
  using assms by (simp add: getOrCreateIdForKey_def find_key_append_new Let_def)

text \<open>Every id that \<^verbatim>\<open>queryNearest\<close> returns is read off a key of the key table.\<close>

lemma VecBackend_queryNearest_ids:
  assumes "memory_items db = Some its" and "(x, d) \<in> set (VecBackend_queryNearest ext q k (b, db))"
  shows "\<exists>it \<in> set its. x = key_to_id ext (item_key it)"
proof -
  from assms obtain t hits where
    r: "(x, d) \<in> set (map (\<lambda>r. (key_to_id ext (fst r), snd r)) (limit k (sort_key snd (join_items its hits))))"
    by (auto simp: VecBackend_queryNearest_def split: option.splits if_splits sum.splits)
  then obtain key where "x = key_to_id ext key" "(key, d) \<in> set (limit k (sort_key snd (join_items its hits)))"
    by auto
  moreover have "set (limit k (sort_key snd (join_items its hits))) \<subseteq> set (join_items its hits)"
    using set_limit[of k "sort_key snd (join_items its hits)"] by simp
  ultimately have "x = key_to_id ext key" "(key, d) \<in> set (join_items its hits)"
    by auto
  then show ?thesis
    by (auto simp: join_items_def)
qed

lemma key_to_id_key: "key_to_id ext (''memory_'' @ s) = parse_int ext s"
  by (simp add: key_to_id_def startsWith_def)

text \<open>
  Once \<open>getOrCreateIdForKey\<close> has resolved the key of the external id \<open>i\<close> to
  the internal id \<open>m\<close>, resolving the same key again gives \<open>m\<close> again, and a
  hit of the native search on \<open>m\<close> is returned by \<^verbatim>\<open>queryNearest\<close> under what
  \<^verbatim>\<open>parseInt\<close> reads in the text of \<open>i\<close>.
\<close>

lemma key_mapping_reads_back:
  assumes "memory_items db = Some its" and "distinct (map item_id its)"
      and "vec_loaded b" and "vec_dim b = Some (int (length q))" and "memory_vectors_vec db = Some t"
      and "getOrCreateIdForKey ext (''memory_'' @ number_string ext i) None db = (Inr m, db1)"
      and "vec_match ext t q k = Inr [(m, d)]" and "k \<noteq> 0"
  shows "fst (getOrCreateIdForKey ext (''memory_'' @ number_string ext i) None db1) = Inr m
         \<and> VecBackend_queryNearest ext q k (b, db1) = [(parse_int ext (number_string ext i), d)]"
proof -
  obtain its1 it where t1: "memory_vectors_vec db1 = Some t"
      and i1: "memory_items db1 = Some its1" and d1: "distinct (map item_id its1)"
      and f1: "find_key (''memory_'' @ number_string ext i) its1 = Some it" and m: "item_id it = m"
    using getOrCreateIdForKey_result[OF assms(1,2,6)] assms(5) by auto
  have again: "fst (getOrCreateIdForKey ext (''memory_'' @ number_string ext i) None db1) = Inr m"
    using getOrCreateIdForKey_existing[OF i1 f1] m by simp
  have it: "it \<in> set its1" "item_key it = ''memory_'' @ number_string ext i"
    using find_key_Some[OF f1] by simp_all
  have j: "join_items its1 [(m, d)] = [(''memory_'' @ number_string ext i, d)]"
    using join_items_single[OF d1 it(1), of d] m it(2) by simp
  have lim: "limit k [(''memory_'' @ number_string ext i, d)] = [(''memory_'' @ number_string ext i, d)]"
    using assms(8) by (cases "k < 0") (simp_all add: limit_def take_Cons')
  have "VecBackend_queryNearest ext q k (b, db1) = [(parse_int ext (number_string ext i), d)]"
    using assms(3,4,7) t1 i1 j lim key_to_id_key[of ext "number_string ext i"]
    by (simp add: VecBackend_queryNearest_def assertDim_def)
  with again show ?thesis by simp
qed



subsection \<open>Loading and selecting a backend\<close>

lemma upsert_body_tables:
  assumes "memory_items db \<noteq> None" "memory_vectors_vec db \<noteq> None"
  shows "memory_items (snd (upsert_body ext d i v db)) \<noteq> None
       \<and> memory_vectors_vec (snd (upsert_body ext d i v db)) \<noteq> None"
  using assms
  by (auto simp: upsert_body_def getOrCreateIdForKey_def Let_def
      split: option.splits if_splits prod.splits sum.splits)

lemma upsert_body_tables_eq:
  "upsert_body ext d i v db = (r, db1) \<Longrightarrow> memory_items db = Some its \<Longrightarrow>
   memory_vectors_vec db = Some t \<Longrightarrow>
   (\<exists>its1. memory_items db1 = Some its1) \<and> (\<exists>t1. memory_vectors_vec db1 = Some t1)"
  using upsert_body_tables[of db ext d i v] by auto

lemma VecBackend_upsert_frame:
  "VecBackend_upsert ext i v (b, db) = (r, (b1, db1)) \<Longrightarrow>
   b1 = b \<and> (memory_items db \<noteq> None \<longrightarrow> memory_vectors_vec db \<noteq> None \<longrightarrow>
             memory_items db1 \<noteq> None \<and> memory_vectors_vec db1 \<noteq> None)"
  by (auto simp: VecBackend_upsert_def split: option.splits if_splits prod.splits
      dest: upsert_body_tables_eq)

lemma VecBackend_ensureTable_fresh:
  "VecBackend_ensureTable ext 384 (\<lparr>vec_loaded = True, vec_dim = None\<rparr>, db) = (b1, db1) \<Longrightarrow>
   vec_loaded b1 \<Longrightarrow>
   b1 = \<lparr>vec_loaded = True, vec_dim = Some 384\<rparr> \<and> memory_items db1 \<noteq> None
     \<and> memory_vectors_vec db1 \<noteq> None \<and> (memory_vectors_vec db = None \<longrightarrow> vec_create ext 384 = None)"
  by (auto simp: VecBackend_ensureTable_def Let_def split: option.splits)

lemma VecBackend_selfTest_Some:
  assumes "VecBackend_selfTest ext (\<lparr>vec_loaded = True, vec_dim = None\<rparr>, db) = (Some b, db1)"
  shows "b = \<lparr>vec_loaded = True, vec_dim = Some 384\<rparr> \<and> memory_items db1 \<noteq> None
       \<and> memory_vectors_vec db1 \<noteq> None \<and> (memory_vectors_vec db = None \<longrightarrow> vec_create ext 384 = None)
       \<and> fst (VecBackend_upsert ext 999999 (replicate 384 (1 / 10))
                (VecBackend_ensureTable ext 384 (\<lparr>vec_loaded = True, vec_dim = None\<rparr>, db))) = None"
proof -
  obtain b0 db0 where e: "VecBackend_ensureTable ext 384 (\<lparr>vec_loaded = True, vec_dim = None\<rparr>, db) = (b0, db0)"
    by (cases "VecBackend_ensureTable ext 384 (\<lparr>vec_loaded = True, vec_dim = None\<rparr>, db)")
  obtain r b2 db2 where u: "VecBackend_upsert ext 999999 (replicate 384 (1 / 10)) (b0, db0) = (r, (b2, db2))"
    by (cases "VecBackend_upsert ext 999999 (replicate 384 (1 / 10)) (b0, db0)") auto
  from assms e u have r: "r = None" "vec_loaded b2" "b = b2" "db1 = db2"
    by (auto simp: VecBackend_selfTest_def Let_def split: option.splits if_splits)
  from VecBackend_upsert_frame[OF u] have f: "b2 = b0"
    "memory_items db0 \<noteq> None \<longrightarrow> memory_vectors_vec db0 \<noteq> None \<longrightarrow>
       memory_items db2 \<noteq> None \<and> memory_vectors_vec db2 \<noteq> None" by simp_all
  from VecBackend_ensureTable_fresh[OF e] r f
  have "b0 = \<lparr>vec_loaded = True, vec_dim = Some 384\<rparr>" "memory_items db0 \<noteq> None"
    "memory_vectors_vec db0 \<noteq> None" "memory_vectors_vec db = None \<longrightarrow> vec_create ext 384 = None"
    by simp_all
  with r f e u show ?thesis by simp
qed

lemma VecBackend_tryLoad_cases:
  "VecBackend_tryLoad env ext db = (None, db)
   \<or> VecBackend_tryLoad env ext db = VecBackend_selfTest ext (\<lparr>vec_loaded = True, vec_dim = None\<rparr>, db)"
  by (simp add: VecBackend_tryLoad_def Let_def split: option.splits)

text \<open>
  What \<^verbatim>\<open>VecBackend.tryLoad\<close> returns: a backend is returned only if it is still loaded
  with 384 recorded as its dimension, both tables exist, creating the table did not fail
  and the sentinel upsert threw nothing. Otherwise it returns null, and the selection
  does not end on sqlite-vec.
\<close>

lemma VecBackend_tryLoad_Some:
  "case VecBackend_tryLoad env ext db of
     (Some b, db1) \<Rightarrow>
        b = \<lparr>vec_loaded = True, vec_dim = Some 384\<rparr> \<and> memory_items db1 \<noteq> None
        \<and> memory_vectors_vec db1 \<noteq> None \<and> (memory_vectors_vec db = None \<longrightarrow> vec_create ext 384 = None)
        \<and> fst (VecBackend_upsert ext 999999 (replicate 384 (1 / 10))
                (VecBackend_ensureTable ext 384 (\<lparr>vec_loaded = True, vec_dim = None\<rparr>, db))) = None
   | (None, db1) \<Rightarrow> getBackendType (UnifiedVectorBackend_tryLoad env ext db) \<noteq> vec"
proof (cases "VecBackend_tryLoad env ext db")
  case (Pair r db1)
  show ?thesis
  proof (cases r)
    case None
    with Pair show ?thesis
      by (simp add: UnifiedVectorBackend_tryLoad_def getBackendType_def Let_def split: option.splits)
  next
    case (Some b)
    with Pair VecBackend_tryLoad_cases[of env ext db]
    have "VecBackend_selfTest ext (\<lparr>vec_loaded = True, vec_dim = None\<rparr>, db) = (Some b, db1)"
      by auto
    from VecBackend_selfTest_Some[OF this] Pair Some show ?thesis by simp
  qed
qed

lemma selfTest_sentinel_refused:
  assumes "vec_create ext 384 = None"
      and "vec_insert ext \<lparr>vt_dim = 384, vt_rows = []\<rparr> 1 (replicate 384 (1 / 10)) = Some msg"
      and "\<not> str_includes msg ''dimension''"
  shows "VecBackend_selfTest ext (\<lparr>vec_loaded = True, vec_dim = None\<rparr>, empty_db)
         = (Some \<lparr>vec_loaded = True, vec_dim = Some 384\<rparr>,
            empty_db\<lparr>memory_items := Some [\<lparr>item_id = 1, item_key = ''memory_'' @ number_string ext 999999,
                                             item_payload = None\<rparr>],
                      memory_vectors_vec := Some \<lparr>vt_dim = 384, vt_rows = []\<rparr>\<rparr>)"
proof -
  let ?db0 = "empty_db\<lparr>memory_items := Some [], memory_vectors_vec := Some \<lparr>vt_dim = 384, vt_rows = []\<rparr>\<rparr>"
  let ?key = "''memory_'' @ number_string ext 999999"
  let ?db1 = "empty_db\<lparr>memory_items := Some [\<lparr>item_id = 1, item_key = ?key, item_payload = None\<rparr>],
                      memory_vectors_vec := Some \<lparr>vt_dim = 384, vt_rows = []\<rparr>\<rparr>"
  have e: "VecBackend_ensureTable ext 384 (\<lparr>vec_loaded = True, vec_dim = None\<rparr>, empty_db)
           = (\<lparr>vec_loaded = True, vec_dim = Some 384\<rparr>, ?db0)"
    using assms(1) by (simp add: VecBackend_ensureTable_def empty_db_def)
  have g: "getOrCreateIdForKey ext ?key None ?db0 = (Inr 1, ?db1)"
    using getOrCreateIdForKey_absent[of ?db0 "[]" ?key ext None]
    by (simp add: find_key_def next_rowid_def empty_db_def)
  have u: "upsert_body ext 384 999999 (replicate 384 (1 / 10)) ?db0 = (Some (Error msg), ?db1)"
    using g assms(2) by (simp add: upsert_body_def assertDim_def empty_db_def)
  have "VecBackend_upsert ext 999999 (replicate 384 (1 / 10)) (\<lparr>vec_loaded = True, vec_dim = Some 384\<rparr>, ?db0)
        = (None, (\<lparr>vec_loaded = True, vec_dim = Some 384\<rparr>, ?db1))"
    using u assms(3) by (simp add: VecBackend_upsert_def)
  with e show ?thesis
    by (simp add: VecBackend_selfTest_def)
qed

text \<open>
  Claim C7 (every native candidate is self-tested after loading: a sentinel vector is
  inserted and the count is verified, and a candidate that fails a step is unavailable).
  On a Windows machine with the sqlite-vec library, whose vector table refuses the
  sentinel row with an error that does not mention the dimension: \<^verbatim>\<open>tryLoad\<close>
  selects the sqlite-vec backend and reports it available, after a self-test that has
  written the key of the sentinel into the key table and no vector, so that the count is
  0. On a Linux machine with the two sqlite-vss libraries: the sqlite-vss backend is
  selected and available as soon as its libraries load, with no dimension recorded and the
  database untouched, whatever the extension would have done with a table or a row.
\<close>

theorem selfTest_not_enforced:
  assumes "vec_create ext 384 = None"
      and "vec_insert ext \<lparr>vt_dim = 384, vt_rows = []\<rparr> 1 (replicate 384 (1 / 10)) = Some msg"
      and "\<not> str_includes msg ''dimension''"
  shows "UnifiedVectorBackend_tryLoad env_vec ext empty_db
         = (\<lparr>activeBackend = Some (Vec \<lparr>vec_loaded = True, vec_dim = Some 384\<rparr>)\<rparr>,
            empty_db\<lparr>memory_items := Some [\<lparr>item_id = 1, item_key = ''memory_'' @ number_string ext 999999,
                                             item_payload = None\<rparr>],
                      memory_vectors_vec := Some \<lparr>vt_dim = 384, vt_rows = []\<rparr>\<rparr>)
         \<and> isAvailable (UnifiedVectorBackend_tryLoad env_vec ext empty_db)
         \<and> count (UnifiedVectorBackend_tryLoad env_vec ext empty_db) = 0
         \<and> UnifiedVectorBackend_tryLoad env_vss ext empty_db
           = (\<lparr>activeBackend = Some (Vss \<lparr>vss_loaded = True, vss_dim = None\<rparr>)\<rparr>, empty_db)
         \<and> isAvailable (UnifiedVectorBackend_tryLoad env_vss ext empty_db)
         \<and> count (UnifiedVectorBackend_tryLoad env_vss ext empty_db) = 0"
proof -
  have v: "UnifiedVectorBackend_tryLoad env_vec ext empty_db
         = (\<lparr>activeBackend = Some (Vec \<lparr>vec_loaded = True, vec_dim = Some 384\<rparr>)\<rparr>,
            empty_db\<lparr>memory_items := Some [\<lparr>item_id = 1, item_key = ''memory_'' @ number_string ext 999999,
                                             item_payload = None\<rparr>],
                      memory_vectors_vec := Some \<lparr>vt_dim = 384, vt_rows = []\<rparr>\<rparr>)"
    using selfTest_sentinel_refused[OF assms]
    by (simp add: UnifiedVectorBackend_tryLoad_def VecBackend_tryLoad_def env_vec_def)
  have s: "UnifiedVectorBackend_tryLoad env_vss ext empty_db
           = (\<lparr>activeBackend = Some (Vss \<lparr>vss_loaded = True, vss_dim = None\<rparr>)\<rparr>, empty_db)"
    by (simp add: UnifiedVectorBackend_tryLoad_def VssBackend_tryLoad_def env_vss_def)
  show ?thesis
    unfolding v s
    by (simp add: isAvailable_def count_def VecBackend_isAvailable_def VssBackend_isAvailable_def
        VecBackend_count_def VssBackend_count_def empty_db_def)
qed

theorem selfTest_not_enforced_witness:
  "vec_create rejecting_native 384 = None
   \<and> vec_insert rejecting_native \<lparr>vt_dim = 384, vt_rows = []\<rparr> 1 (replicate 384 (1 / 10))
       = Some ''database or disk is full''
   \<and> \<not> str_includes ''database or disk is full'' ''dimension''
   \<and> UnifiedVectorBackend_tryLoad env_vec rejecting_native empty_db
       = (\<lparr>activeBackend = Some (Vec \<lparr>vec_loaded = True, vec_dim = Some 384\<rparr>)\<rparr>,
          empty_db\<lparr>memory_items := Some [\<lparr>item_id = 1, item_key = ''memory_999999'', item_payload = None\<rparr>],
                    memory_vectors_vec := Some \<lparr>vt_dim = 384, vt_rows = []\<rparr>\<rparr>)
   \<and> count (UnifiedVectorBackend_tryLoad env_vec rejecting_native empty_db) = 0
   \<and> getBackendType (UnifiedVectorBackend_tryLoad env_vss rejecting_native empty_db) = vss"
proof -
  have a: "vec_create rejecting_native 384 = None"
    by (simp add: rejecting_native_def accepting_native_def)
  have b: "vec_insert rejecting_native \<lparr>vt_dim = 384, vt_rows = []\<rparr> 1 (replicate 384 (1 / 10))
       = Some ''database or disk is full''"
    by (simp add: rejecting_native_def accepting_native_def)
  have c: "\<not> str_includes ''database or disk is full'' ''dimension''"
    by (simp add: startsWith_def)
  have k: "number_string rejecting_native 999999 = ''999999''"
    by (simp add: rejecting_native_def accepting_native_def)
  show ?thesis
    using selfTest_not_enforced[OF a b c] a b c k
    by (simp add: getBackendType_def count_def VecBackend_count_def empty_db_def)
qed

text \<open>
  Claim C8 (with no native backend the computed fallback is selected, is available, and
  upsert, query and count still operate). As stated it fails: on a machine with no native
  library the unified backend reports that it is not available, and the count after an
  upsert is still 0.
\<close>

theorem fallback_counterexample:
  "\<not> isAvailable (UnifiedVectorBackend_tryLoad env_none accepting_native empty_db)
   \<and> count (snd (upsert accepting_native 1 [1, 2, 3] (UnifiedVectorBackend_tryLoad env_none accepting_native empty_db))) = 0"
  by (simp add: UnifiedVectorBackend_tryLoad_def VssBackend_tryLoad_def VecBackend_tryLoad_def
      env_none_def isAvailable_def upsert_def count_def Let_def)

text \<open>
  Claim C8, amended. When neither native candidate is returned by its \<^verbatim>\<open>tryLoad\<close>,
  the unified backend has no active backend: its type is reported as \<^verbatim>\<open>local-js\<close>, it
  is not available, \<^verbatim>\<open>ensureTable\<close> and \<^verbatim>\<open>upsert\<close> change nothing and throw
  nothing, \<^verbatim>\<open>queryNearest\<close> returns the empty list and \<^verbatim>\<open>count\<close> returns 0.
\<close>

theorem no_native_backend:
  assumes "VssBackend_tryLoad env = None \<or> os_platform env = Win32"
      and "fst (VecBackend_tryLoad env ext db) = None"
      and "st = UnifiedVectorBackend_tryLoad env ext db"
  shows "getBackendType st = local_js \<and> \<not> isAvailable st \<and> ensureTable ext' d st = st
       \<and> upsert ext' i v st = (None, st) \<and> queryNearest ext' q k st = [] \<and> count st = 0"
proof -
  have "activeBackend (fst st) = None"
    using assms
    by (auto simp: UnifiedVectorBackend_tryLoad_def Let_def split: option.splits prod.splits)
  then show ?thesis
    by (simp add: getBackendType_def isAvailable_def ensureTable_def upsert_def queryNearest_def count_def)
qed

theorem no_native_backend_witness:
  "getBackendType (UnifiedVectorBackend_tryLoad env_none accepting_native empty_db) = local_js
   \<and> \<not> isAvailable (UnifiedVectorBackend_tryLoad env_none accepting_native empty_db)
   \<and> upsert accepting_native 7 [1, 2] (UnifiedVectorBackend_tryLoad env_none accepting_native empty_db)
       = (None, UnifiedVectorBackend_tryLoad env_none accepting_native empty_db)
   \<and> queryNearest accepting_native [1, 2] 5 (UnifiedVectorBackend_tryLoad env_none accepting_native empty_db) = []
   \<and> count (UnifiedVectorBackend_tryLoad env_none accepting_native empty_db) = 0"
proof -
  have a: "VssBackend_tryLoad env_none = None \<or> os_platform env_none = Win32"
    by (simp add: VssBackend_tryLoad_def env_none_def)
  have b: "fst (VecBackend_tryLoad env_none accepting_native empty_db) = None"
    by (simp add: VecBackend_tryLoad_def env_none_def)
  show ?thesis
    using no_native_backend[OF a b refl, of accepting_native 0 7 "[1, 2]" "[1, 2]" 5] by simp
qed

section \<open>Properties of the hybrid search database\<close>

subsection \<open>Re-indexing a file\<close>

text \<open>
  \<^verbatim>\<open>upsertSymbol\<close> by itself: the key of the symbol given is live in the file
  afterwards, next to the keys that were; and on a conflict the row keeps its id and takes
  the end, the signature, the parent and the language of the symbol given.
\<close>

lemma keys_map_invariant:
  assumes "\<And>s. s_file_id (g s) = s_file_id s" and "\<And>s. symbol_key (g s) = symbol_key s"
  shows "symbol_key ` set (filter (\<lambda>s. s_file_id s = fid) (map g xs))
         = symbol_key ` set (filter (\<lambda>s. s_file_id s = fid) xs)"
  by (induction xs) (simp_all add: assms)

lemma conflicts_key:
  "conflicts fid y s \<longleftrightarrow> s_file_id s = fid \<and> symbol_key s = input_key y"
  by (auto simp: conflicts_def symbol_key_def input_key_def)

lemma upsertSymbol_keys:
  assumes "upsertSymbol fid y db = (i, db1)"
  shows "symbol_key ` set (file_symbols fid db1) = insert (input_key y) (symbol_key ` set (file_symbols fid db))"
proof (cases "find (conflicts fid y) (code_symbols db)")
  case None
  with assms obtain new where n: "code_symbols db1 = code_symbols db @ [new]"
      "s_file_id new = fid" "symbol_key new = input_key y"
    by (auto simp: upsertSymbol_def Let_def symbol_key_def input_key_def)
  then show ?thesis by (simp add: file_symbols_def)
next
  case (Some old)
  then have old: "old \<in> set (code_symbols db)" "conflicts fid y old"
    by (auto simp: find_Some_iff)
  define new where "new = old\<lparr>s_end_byte := in_end_byte y, s_end_line := in_end_line y,
                         s_signature := or_null (in_signature y),
                         s_doc := (case or_null (in_doc y) of None \<Rightarrow> s_doc old | Some d \<Rightarrow> Some d),
                         s_parent_symbol := or_null (in_parent_symbol y),
                         s_language := or_null (in_language y)\<rparr>"
  define g where "g = (\<lambda>s. if conflicts fid y s then new else s)"
  have new: "s_file_id new = fid" "symbol_key new = input_key y"
    using old(2) by (simp_all add: new_def conflicts_key symbol_key_def)
  have g: "\<And>s. s_file_id (g s) = s_file_id s" "\<And>s. symbol_key (g s) = symbol_key s"
    using new by (auto simp: g_def conflicts_key)
  from Some assms have "code_symbols db1 = map g (code_symbols db)"
    by (auto simp: upsertSymbol_def Let_def g_def new_def)
  then have "symbol_key ` set (file_symbols fid db1) = symbol_key ` set (file_symbols fid db)"
    using keys_map_invariant[of g fid "code_symbols db", OF g] by (simp add: file_symbols_def)
  moreover have "input_key y \<in> symbol_key ` set (file_symbols fid db)"
    using old by (force simp: file_symbols_def conflicts_key)
  ultimately show ?thesis by auto
qed

lemma upsertSymbol_conflict:
  assumes "find (conflicts fid y) (code_symbols db) = Some old"
      and "s \<in> set (code_symbols (snd (upsertSymbol fid y db)))" and "conflicts fid y s"
  shows "fst (upsertSymbol fid y db) = s_id old \<and> s_id s = s_id old
         \<and> s_end_byte s = in_end_byte y \<and> s_end_line s = in_end_line y
         \<and> s_signature s = or_null (in_signature y) \<and> s_parent_symbol s = or_null (in_parent_symbol y)
         \<and> s_language s = or_null (in_language y) \<and> s_start_line s = s_start_line old"
  using assms by (auto simp: upsertSymbol_def Let_def)











subsection \<open>The rows of the search statements\<close>









subsection \<open>The fused score\<close>




subsection \<open>Bounds of the scores\<close>




section \<open>Properties of the code indexer\<close>

subsection \<open>Line numbers of the symbols\<close>

lemma find_from_bounds:
  "find_from lines i bc ib = Some j \<Longrightarrow> i \<le> j \<and> j < length lines"
proof (induction lines i bc ib rule: find_from.induct)
  case (1 lines i braceCount inBlock)
  show ?case
  proof (cases "i < length lines")
    case False
    with "1.prems" show ?thesis by (simp add: find_from.simps)
  next
    case True
    obtain found bc' ib' where s: "scan_line (lines ! i) braceCount inBlock = (found, bc', ib')"
      by (cases "scan_line (lines ! i) braceCount inBlock") auto
    show ?thesis
    proof (cases found)
      case True
      with \<open>i < length lines\<close> s "1.prems" show ?thesis
        by (simp add: find_from.simps[of lines i])
    next
      case False
      with \<open>i < length lines\<close> s "1.prems" have "find_from lines (i + 1) bc' ib' = Some j"
        by (simp add: find_from.simps[of lines i])
      from "1.IH"[OF \<open>i < length lines\<close> s[symmetric] refl False this] show ?thesis by simp
    qed
  qed
qed

lemma findBlockEnd_bounds:
  "i < length lines \<Longrightarrow> int i \<le> findBlockEnd lines i \<and> findBlockEnd lines i \<le> int (length lines) - 1"
  by (auto simp: findBlockEnd_def split: option.splits dest: find_from_bounds)

lemma python_block_from_bounds:
  "start < i \<Longrightarrow> start < length lines \<Longrightarrow>
   int start \<le> python_block_from lines ind i \<and> python_block_from lines ind i \<le> int (length lines) - 1"
proof (induction lines ind i rule: python_block_from.induct)
  case (1 lines startIndent i)
  show ?case
  proof (cases "i < length lines")
    case False
    with "1.prems" show ?thesis by (simp add: python_block_from.simps[of lines startIndent i])
  next
    case True
    show ?thesis
    proof (cases "trim (lines ! i) = []")
      case t: True
      with True "1.IH"(1) "1.prems" show ?thesis
        by (simp add: python_block_from.simps[of lines startIndent i])
    next
      case f: False
      show ?thesis
      proof (cases "getIndentLevel (lines ! i) \<le> startIndent")
        case True
        with \<open>i < length lines\<close> f "1.prems" show ?thesis
          by (simp add: python_block_from.simps[of lines startIndent i])
      next
        case False
        with True f "1.IH"(2) "1.prems" show ?thesis
          by (simp add: python_block_from.simps[of lines startIndent i])
      qed
    qed
  qed
qed

lemma findPythonBlockEnd_bounds:
  "i < length lines \<Longrightarrow>
   int i \<le> findPythonBlockEnd lines i \<and> findPythonBlockEnd lines i \<le> int (length lines) - 1"
  using python_block_from_bounds[of i "i + 1" lines] by (simp add: findPythonBlockEnd_def)

lemma push_bounds:
  "i < length lines \<Longrightarrow> int i \<le> e \<Longrightarrow> e \<le> int (length lines) - 1 \<Longrightarrow>
   in_bounds (length lines) (push lines i e nm ty sig)"
  by (simp add: push_def in_bounds_def)

lemma typescript_at_bounds:
  "i < length lines \<Longrightarrow> s \<in> set (typescript_at lines i) \<Longrightarrow> in_bounds (length lines) s"
  using findBlockEnd_bounds[of i lines]
  by (auto simp: typescript_at_def Let_def push_bounds split: option.splits if_splits)

lemma python_at_bounds:
  "i < length lines \<Longrightarrow> s \<in> set (python_at lines i) \<Longrightarrow> in_bounds (length lines) s"
  using findPythonBlockEnd_bounds[of i lines]
  by (auto simp: python_at_def Let_def push_bounds split: option.splits if_splits)

lemma extractTypeScriptSymbols_bounds:
  "\<forall>s \<in> set acc. in_bounds (length lines) s \<Longrightarrow>
   \<forall>s \<in> set (extractTypeScriptSymbols lines i acc). in_bounds (length lines) s"
proof (induction lines i acc rule: extractTypeScriptSymbols.induct)
  case (1 lines i symbols)
  show ?case
  proof (cases "i < length lines")
    case True
    have "\<forall>s \<in> set (symbols @ typescript_at lines i). in_bounds (length lines) s"
      using "1.prems" typescript_at_bounds[OF True] by auto
    from "1.IH"[OF True this] True show ?thesis
      by (simp add: extractTypeScriptSymbols.simps[of lines i])
  next
    case False
    with "1.prems" show ?thesis by (simp add: extractTypeScriptSymbols.simps[of lines i])
  qed
qed

lemma extractPythonSymbolsHeuristic_bounds:
  "\<forall>s \<in> set acc. in_bounds (length lines) s \<Longrightarrow>
   \<forall>s \<in> set (extractPythonSymbolsHeuristic lines i acc). in_bounds (length lines) s"
proof (induction lines i acc rule: extractPythonSymbolsHeuristic.induct)
  case (1 lines i symbols)
  show ?case
  proof (cases "i < length lines")
    case True
    have "\<forall>s \<in> set (symbols @ python_at lines i). in_bounds (length lines) s"
      using "1.prems" python_at_bounds[OF True] by auto
    from "1.IH"[OF True this] True show ?thesis
      by (simp add: extractPythonSymbolsHeuristic.simps[of lines i])
  next
    case False
    with "1.prems" show ?thesis by (simp add: extractPythonSymbolsHeuristic.simps[of lines i])
  qed
qed

text \<open>
  Claim C6 (every emitted symbol, of any tier, has its start line not after its end line,
  and both in the range from 0 to the number of lines of the file, the latter excluded).
  As stated it fails in the heuristic tier: in a file of one line the function on that
  line is emitted with the start line 1 and the end line 1, which is the number of lines
  of the file.
\<close>

theorem symbol_line_bounds_counterexample:
  "map (\<lambda>s. (sy_startLine s, sy_endLine s))
     (extractSymbolsHeuristically ''function f() {}'' (Some ''typescript'')) = [(1, 1)]
   \<and> length (split_lines ''function f() {}'') = 1"
  by code_simp

lemma heuristic_bounds:
  "s \<in> set (extractSymbolsHeuristically text language) \<Longrightarrow>
   1 \<le> sy_startLine s \<and> sy_startLine s \<le> sy_endLine s
   \<and> sy_endLine s \<le> int (length (split_lines text))"
  using extractTypeScriptSymbols_bounds[of "[]" "split_lines text" 0]
        extractPythonSymbolsHeuristic_bounds[of "[]" "split_lines text" 0]
  by (auto simp: extractSymbolsHeuristically_def Let_def in_bounds_def split: if_splits)

text \<open>The AST tier: the rows of a symbol are those of a node of the tree, inside the content.\<close>

lemma extractSymbolFromNode_rows:
  "extractSymbolFromNode nd lines language filePath parent = Some x \<Longrightarrow>
   sy_startLine x = n_startRow nd \<and> sy_endLine x = n_endRow nd
   \<and> 0 \<le> n_startRow nd \<and> n_startRow nd < int (length lines)
   \<and> 0 \<le> n_endRow nd \<and> n_endRow nd < int (length lines)"
  by (auto simp: extractSymbolFromNode_def Let_def split: if_splits prod.splits option.splits)

lemma traverseTreeSitterNode_rows:
  "x \<in> set (traverseTreeSitterNode nd lines language filePath parent) \<Longrightarrow>
   \<exists>n \<in> set (nodes nd). sy_startLine x = n_startRow n \<and> sy_endLine x = n_endRow n
      \<and> 0 \<le> n_startRow n \<and> n_startRow n < int (length lines)
      \<and> 0 \<le> n_endRow n \<and> n_endRow n < int (length lines)"
proof (induction nd arbitrary: x)
  case (Node ty s e tx cs)
  from Node.prems consider
      (here) "extractSymbolFromNode (Node ty s e tx cs) lines language filePath parent = Some x"
    | (below) c where "c \<in> set cs" "x \<in> set (traverseTreeSitterNode c lines language filePath parent)"
    by (auto split: option.splits)
  then show ?case
  proof cases
    case here
    from extractSymbolFromNode_rows[OF here] show ?thesis by simp
  next
    case below
    from Node.IH[OF below] below(1) show ?thesis by auto
  qed
qed

text \<open>
  Claim C6, amended. Every symbol emitted by the AST tier has the rows of a node of the
  syntax tree, counted from 0, both in the range from 0 to the number of lines of the
  content, the latter excluded; a node outside this range is skipped. The line numbers of
  the heuristic tier count from 1: every symbol it emits has a start line of at least 1, a
  start line not after its end line, and an end line of at most the number of lines of
  the content.
\<close>

theorem symbol_line_bounds:
  "(x \<in> set (extractSymbols parse language filePath content) \<longrightarrow>
      0 \<le> sy_startLine x \<and> sy_startLine x < int (length (split_lf content))
      \<and> 0 \<le> sy_endLine x \<and> sy_endLine x < int (length (split_lf content))
      \<and> (\<exists>rootNode. parse content = Some rootNode
            \<and> (\<exists>n \<in> set (nodes rootNode). sy_startLine x = n_startRow n \<and> sy_endLine x = n_endRow n)))
   \<and> (s \<in> set (extractSymbolsHeuristically text language') \<longrightarrow>
      1 \<le> sy_startLine s \<and> sy_startLine s \<le> sy_endLine s
      \<and> sy_endLine s \<le> int (length (split_lines text)))"
proof (rule conjI; rule impI)
  assume x: "x \<in> set (extractSymbols parse language filePath content)"
  then obtain lang where l: "language = Some lang"
    by (cases language) (auto simp: extractSymbols_def)
  with x obtain rootNode where p: "parse content = Some rootNode"
    by (cases "parse content") (auto simp: extractSymbols_def)
  with x l have t: "x \<in> set (traverseTreeSitterNode rootNode (split_lf content) lang filePath None)"
    by (simp add: extractSymbols_def)
  from traverseTreeSitterNode_rows[OF t] p
  show "0 \<le> sy_startLine x \<and> sy_startLine x < int (length (split_lf content))
      \<and> 0 \<le> sy_endLine x \<and> sy_endLine x < int (length (split_lf content))
      \<and> (\<exists>rootNode. parse content = Some rootNode
            \<and> (\<exists>n \<in> set (nodes rootNode). sy_startLine x = n_startRow n \<and> sy_endLine x = n_endRow n))"
    by auto
next
  assume "s \<in> set (extractSymbolsHeuristically text language')"
  then show "1 \<le> sy_startLine s \<and> sy_startLine s \<le> sy_endLine s
      \<and> sy_endLine s \<le> int (length (split_lines text))"
    by (rule heuristic_bounds)
qed

theorem symbol_line_bounds_witness:
  "map (\<lambda>x. (sy_startLine x, sy_endLine x))
     (extractSymbols type_alias_parser (Some ''typescript'') ''a.ts'' ''type T = number;'') = [(0, 0)]
   \<and> length (split_lf ''type T = number;'') = 1
   \<and> map (\<lambda>s. (sy_startLine s, sy_endLine s))
       (extractSymbolsHeuristically ''function f() {}'' (Some ''typescript'')) = [(1, 1)]
   \<and> length (split_lines ''function f() {}'') = 1"
proof -
  let ?x = "\<lparr>sy_startLine = 0, sy_endLine = 0, sy_name = ''T'', sy_type = Ttype,
         sy_content = ''type T = number;'', sy_signature = Some ''type T = number;'',
         sy_docstring = None, sy_parent = None, sy_language = ''typescript'', sy_filePath = ''a.ts''\<rparr>"
  let ?s = "\<lparr>sy_startLine = 1, sy_endLine = 1, sy_name = ''f'', sy_type = Tfunction,
         sy_content = ''function f() {}'', sy_signature = Some ''function f()'',
         sy_docstring = None, sy_parent = None\<rparr>"
  have a: "extractSymbols type_alias_parser (Some ''typescript'') ''a.ts'' ''type T = number;'' = [?x]"
    by code_simp
  have e: "extractSymbolsHeuristically ''function f() {}'' (Some ''typescript'') = [?s]"
    by code_simp
  have l: "length (split_lf ''type T = number;'') = 1" "length (split_lines ''function f() {}'') = 1"
    by code_simp+
  from symbol_line_bounds[of ?x type_alias_parser "Some ''typescript''" "''a.ts''" "''type T = number;''"
      ?s "''function f() {}''" "Some ''typescript''"] a e l
  show ?thesis by simp
qed

subsection \<open>The order of the tiers\<close>

lemma windows_parseMode:
  "c \<in> set (windows path lang lines maxLines i) \<Longrightarrow> c_parseMode c = heuristic \<and> \<not> c_isTreeSitterParsed c"
proof (induction path lang lines maxLines i rule: windows.induct)
  case (1 path lang lines maxLines i)
  show ?case
  proof (cases "0 < maxLines \<and> i < length lines")
    case True
    with "1.prems" "1.IH" show ?thesis
      by (subst (asm) windows.simps) auto
  next
    case False
    with "1.prems" show ?thesis
      by (subst (asm) windows.simps) auto
  qed
qed

text \<open>
  Claim C5 (the AST tier is tried first, and where it yields a symbol the other tiers are
  not run). As stated it fails: for a file in which the extractor of the AST tier finds a
  symbol, the heuristic tier and the line windows are both run.
\<close>

theorem tier_order_counterexample:
  "map sy_name (extractSymbols type_alias_parser (Some ''typescript'') ''a.ts'' ''type T = number;'') = [''T'']
   \<and> fst (chunkFileWithTreeSitter (extractSymbols type_alias_parser (Some ''typescript''))
            ''a.ts'' (Some ''typescript'') ''type T = number;'' no_options)
      = [HeuristicTier, WindowTier]"
  by code_simp

text \<open>
  Claim C5, amended. Whatever the AST tier would yield, \<^verbatim>\<open>chunkFileWithTreeSitter\<close>
  does not run it: for every file the heuristic tier runs first, the line windows run
  after it exactly when it yields no symbol, and every chunk returned is marked as parsed
  heuristically and not by Tree-sitter.
\<close>

theorem heuristic_tier_always_runs:
  "fst (chunkFileWithTreeSitter treeSitter file language text opts)
     = (if extractSymbolsHeuristically text language = [] then [HeuristicTier, WindowTier] else [HeuristicTier])
   \<and> (\<forall>chunks. snd (chunkFileWithTreeSitter treeSitter file language text opts) = Some chunks \<longrightarrow>
         (\<forall>c \<in> set chunks. c_parseMode c = heuristic \<and> \<not> c_isTreeSitterParsed c))"
  by (auto simp: chunkFileWithTreeSitter_def enhancedHeuristicChunking_def fallbackToHeuristicChunking_def
      symbol_chunk_def Let_def dest: windows_parseMode split: if_splits)

theorem heuristic_tier_always_runs_witness:
  "fst (chunkFileWithTreeSitter (extractSymbols type_alias_parser (Some ''typescript''))
          ''a.ts'' (Some ''typescript'') ''function f() {}'' no_options)
     = [HeuristicTier]
   \<and> map c_parseMode (the (snd (chunkFileWithTreeSitter (extractSymbols type_alias_parser (Some ''typescript''))
        ''a.ts'' (Some ''typescript'') ''function f() {}'' no_options))) = [heuristic]"
proof -
  have e: "extractSymbolsHeuristically ''function f() {}'' (Some ''typescript'') \<noteq> []"
    by code_simp
  have c: "map c_parseMode (the (snd (chunkFileWithTreeSitter (extractSymbols type_alias_parser (Some ''typescript''))
        ''a.ts'' (Some ''typescript'') ''function f() {}'' no_options))) = [heuristic]"
    by code_simp
  from heuristic_tier_always_runs[of "extractSymbols type_alias_parser (Some ''typescript'')" "''a.ts''"
      "Some ''typescript''" "''function f() {}''" no_options]
    e c show ?thesis by simp
qed

end
